theory Spec2Isabelle
  imports Complex_Main
begin

section \<open>Numbers\<close>

text \<open>
  The detection code of \<^verbatim>\<open>server/detection.js\<close> computes with JavaScript numbers.
  A finite number is modelled by a real: rounding, overflow and the sign of zero are
  not modelled. JavaScript never raises on a division; a division by zero yields
  \<^verbatim>\<open>Infinity\<close>, \<^verbatim>\<open>-Infinity\<close> or \<^verbatim>\<open>NaN\<close>. Where the source
  divides by a value that it does not guard and that can be zero, the quotient is a
  \<open>jsnum\<close>, and the comparisons on it are those of IEEE 754 (every comparison with
  \<^verbatim>\<open>NaN\<close> is false).
\<close>

datatype jsnum = Fin real | PInf | NInf | NaN

definition jsdiv :: "real \<Rightarrow> real \<Rightarrow> jsnum" where
  "jsdiv a b =
     (if b \<noteq> 0 then Fin (a / b)
      else if 0 < a then PInf
      else if a < 0 then NInf
      else NaN)"

fun js_lt :: "jsnum \<Rightarrow> jsnum \<Rightarrow> bool" where
  "js_lt NaN _ = False"
| "js_lt _ NaN = False"
| "js_lt (Fin a) (Fin b) = (a < b)"
| "js_lt (Fin _) PInf = True"
| "js_lt NInf (Fin _) = True"
| "js_lt NInf PInf = True"
| "js_lt _ _ = False"

definition js_gt :: "jsnum \<Rightarrow> jsnum \<Rightarrow> bool" where
  "js_gt a b = js_lt b a"

fun js_ge :: "jsnum \<Rightarrow> jsnum \<Rightarrow> bool" where
  "js_ge NaN _ = False"
| "js_ge _ NaN = False"
| "js_ge a b = (\<not> js_lt a b)"

text \<open>
  An option value of the caller is a number or is absent (\<^verbatim>\<open>undefined\<close>).
  \<open>truthy\<close> is JavaScript's conversion to a boolean on these values; \<open>js_or a d\<close> is
  \<^verbatim>\<open>a || d\<close>.
\<close>

fun truthy :: "jsnum option \<Rightarrow> bool" where
  "truthy None = False"
| "truthy (Some NaN) = False"
| "truthy (Some (Fin r)) = (r \<noteq> 0)"
| "truthy (Some _) = True"

definition js_or :: "jsnum option \<Rightarrow> jsnum \<Rightarrow> jsnum" where
  "js_or a d = (if truthy a then the a else d)"

text \<open>
  \<^verbatim>\<open>Math.atan2(y, x)\<close>, with \<^verbatim>\<open>atan2(0, 0) = 0\<close>. The sign of zero is not modelled:
  where the source computes \<^verbatim>\<open>atan2(+0, -0)\<close>, which is \<open>pi\<close>, or \<^verbatim>\<open>atan2(-0, x)\<close> for a
  negative \<open>x\<close>, which is \<open>- pi\<close>, the model has \<open>0\<close> and \<open>pi\<close>. This happens only on a path with
  a step of no movement; the properties below do not depend on these values.
\<close>

definition atan2 :: "real \<Rightarrow> real \<Rightarrow> real" where
  "atan2 b a =
     (if 0 < a then arctan (b / a)
      else if a < 0 \<and> 0 \<le> b then arctan (b / a) + pi
      else if a < 0 \<and> b < 0 then arctan (b / a) - pi
      else if 0 < b then pi / 2
      else if b < 0 then - (pi / 2)
      else 0)"

text \<open>\<^verbatim>\<open>Math.sqrt(dx * dx + dy * dy)\<close>, the length of a displacement.\<close>

definition mag :: "real \<Rightarrow> real \<Rightarrow> real" where
  "mag dx dy = sqrt (dx * dx + dy * dy)"

text \<open>\<^verbatim>\<open>Math.max(...xs)\<close> and \<^verbatim>\<open>Math.min(...xs)\<close>, read only on a list that is not empty.\<close>

definition maxList :: "real list \<Rightarrow> real" where
  "maxList xs = fold max (tl xs) (hd xs)"

definition minList :: "real list \<Rightarrow> real" where
  "minList xs = fold min (tl xs) (hd xs)"

text \<open>\<^verbatim>\<open>xs.filter(Boolean).length\<close> and the number of elements that satisfy a test.\<close>

definition countTrue :: "bool list \<Rightarrow> nat" where
  "countTrue bs = length (filter (\<lambda>b. b) bs)"

definition count :: "('a \<Rightarrow> bool) \<Rightarrow> 'a list \<Rightarrow> nat" where
  "count P xs = length (filter P xs)"

text \<open>\<^verbatim>\<open>xs.slice(a, b)\<close> for indices \<open>0 \<le> a \<le> b\<close>.\<close>

definition slice :: "'a list \<Rightarrow> nat \<Rightarrow> nat \<Rightarrow> 'a list" where
  "slice xs a b = take (b - a) (drop a xs)"

text \<open>
  The loops \<^verbatim>\<open>for (let i = 1; i < xs.length; i++)\<close> over \<^verbatim>\<open>xs[i - 1], xs[i]\<close> and
  \<^verbatim>\<open>for (let i = 2; ...)\<close> over \<^verbatim>\<open>xs[i - 2], xs[i - 1], xs[i]\<close> run over these lists.
\<close>

definition pairs :: "'a list \<Rightarrow> ('a \<times> 'a) list" where
  "pairs xs = zip xs (tl xs)"

definition triples :: "'a list \<Rightarrow> ('a \<times> 'a \<times> 'a) list" where
  "triples xs = zip xs (zip (tl xs) (tl (tl xs)))"

text \<open>The loop \<^verbatim>\<open>for (let start = 0; start < len - size; start += 10)\<close>.\<close>

definition segmentStarts :: "nat \<Rightarrow> nat \<Rightarrow> nat list" where
  "segmentStarts len sz = filter (\<lambda>s. s mod 10 = 0) [0..<len - sz]"

section \<open>Samples and the six primary checks\<close>

text \<open>A sample \<^verbatim>\<open>{x, y, t}\<close>: the fields are \<open>px\<close>, \<open>py\<close> and \<open>pt\<close>.\<close>

record point =
  px :: real
  py :: real
  pt :: real

record checks =
  speed :: bool
  curves :: bool
  jitter :: bool
  timing :: bool
  continuous :: bool
  notRobotic :: bool

subsection \<open>1. Speed variation\<close>

definition speeds :: "point list \<Rightarrow> real list" where
  "speeds points =
     concat (map (\<lambda>(p, q).
       let dx = px q - px p;
           dy = py q - py p;
           dt = pt q - pt p;
           d = mag dx dy
       in if dt > 0 \<and> d > 0 then [d / dt] else []) (pairs points))"

definition speedCheck :: "point list \<Rightarrow> bool" where
  "speedCheck points =
     (let sp = speeds points in
      if length sp > 10 then
        let thirds = length sp div 3;
            avgFirst = sum_list (slice sp 0 thirds) / real thirds;
            avgLast = sum_list (drop (length sp - thirds) sp) / real thirds;
            hasVariation = \<bar>avgFirst - avgLast\<bar> > 0.05;
            hasOverall = maxList sp > minList sp * 1.5
        in hasVariation \<or> hasOverall
      else False)"

subsection \<open>2. Path curvature\<close>

definition angleFlags :: "point list \<Rightarrow> bool list" where
  "angleFlags points =
     concat (map (\<lambda>(p, q, r).
       let v1x = px q - px p;
           v1y = py q - py p;
           v2x = px r - px q;
           v2y = py r - py q;
           mag1 = mag v1x v1y;
           mag2 = mag v2x v2y
       in if mag1 > 0.5 \<and> mag2 > 0.5 then
            let dot = v1x * v2x + v1y * v2y;
                angle = arccos (max (- 1) (min 1 (dot / (mag1 * mag2))))
            in [angle < 0.3]
          else []) (triples points))"

definition smoothCount :: "point list \<Rightarrow> nat" where
  "smoothCount points = countTrue (angleFlags points)"

definition angleCount :: "point list \<Rightarrow> nat" where
  "angleCount points = length (angleFlags points)"

definition smoothRatio :: "point list \<Rightarrow> real" where
  "smoothRatio points = real (smoothCount points) / real (max 1 (angleCount points))"

definition curvesCheck :: "point list \<Rightarrow> bool" where
  "curvesCheck points = (smoothRatio points > 0.3 \<and> smoothRatio points < 0.95)"

subsection \<open>3. Micro-movements\<close>

definition deltas :: "point list \<Rightarrow> (real \<times> real) list" where
  "deltas points = map (\<lambda>(p, q). (px q - px p, py q - py p)) (pairs points)"

definition reversalStep :: "real \<times> real \<Rightarrow> nat \<times> real \<times> real \<Rightarrow> nat \<times> real \<times> real" where
  "reversalStep d s =
     (case (d, s) of ((dx, dy), (n, lastDx, lastDy)) \<Rightarrow>
        (n + (if (lastDx > 0 \<and> dx < 0) \<or> (lastDx < 0 \<and> dx > 0) then 1 else 0)
           + (if (lastDy > 0 \<and> dy < 0) \<or> (lastDy < 0 \<and> dy > 0) then 1 else 0),
         dx, dy))"

definition reversals :: "point list \<Rightarrow> nat" where
  "reversals points = fst (fold reversalStep (deltas points) (0, 0, 0))"

definition reversalRatio :: "point list \<Rightarrow> real" where
  "reversalRatio points = real (reversals points) / real (length points)"

definition jitterCheck :: "point list \<Rightarrow> bool" where
  "jitterCheck points = (reversalRatio points < 0.6)"

subsection \<open>4. Timing patterns\<close>

definition duration :: "point list \<Rightarrow> real" where
  "duration points = pt (last points) - pt (hd points)"

definition timeGaps :: "point list \<Rightarrow> real list" where
  "timeGaps points = map (\<lambda>(p, q). pt q - pt p) (pairs points)"

definition pauseCount :: "point list \<Rightarrow> nat" where
  "pauseCount points = count (\<lambda>dt. dt > 50) (timeGaps points)"

definition longPauseCount :: "point list \<Rightarrow> nat" where
  "longPauseCount points = count (\<lambda>dt. dt > 150) (timeGaps points)"

definition pauseRatio :: "point list \<Rightarrow> real" where
  "pauseRatio points = real (pauseCount points) / real (length points)"

definition timingCheck :: "point list \<Rightarrow> bool" where
  "timingCheck points =
     (duration points > 300 \<and> pauseRatio points < 0.3 \<and>
      real (longPauseCount points) < real (length points) * 0.1)"

subsection \<open>5. Continuous flow\<close>

definition smallGaps :: "point list \<Rightarrow> nat" where
  "smallGaps points = count (\<lambda>g. g < 30) (timeGaps points)"

definition continuousRatio :: "point list \<Rightarrow> real" where
  "continuousRatio points = real (smallGaps points) / real (length (timeGaps points))"

definition pointsPerSecond :: "point list \<Rightarrow> jsnum" where
  "pointsPerSecond points = jsdiv (real (length points)) (duration points / 1000)"

definition continuousCheck :: "point list \<Rightarrow> bool" where
  "continuousCheck points =
     (continuousRatio points > 0.4 \<and> js_gt (pointsPerSecond points) (Fin 15))"

subsection \<open>6. Straight line detection\<close>

text \<open>
  One window of the loop: \<open>None\<close> when the window is skipped (\<^verbatim>\<open>continue\<close>), otherwise
  whether the window is too straight.
\<close>

definition segmentTooStraight :: "point list \<Rightarrow> bool option" where
  "segmentTooStraight segment =
     (let x1 = px (segment ! 0); y1 = py (segment ! 0);
          x2 = px (segment ! (length segment - 1));
          y2 = py (segment ! (length segment - 1));
          lineLen = sqrt ((x2 - x1)\<^sup>2 + (y2 - y1)\<^sup>2)
      in if lineLen < 10 then None
         else
           let totalDeviation =
                 sum_list (map (\<lambda>i.
                   \<bar>(y2 - y1) * px (segment ! i) - (x2 - x1) * py (segment ! i)
                     + x2 * y1 - y2 * x1\<bar> / lineLen) [1..<length segment - 1]);
               avgDeviation = totalDeviation / real (length segment - 2);
               deviationRatio = avgDeviation / lineLen
           in Some (deviationRatio < 0.005 \<and> avgDeviation < 2))"

definition segmentSize :: nat where
  "segmentSize = 20"

definition straightSegments :: "point list \<Rightarrow> bool list" where
  "straightSegments points =
     concat (map (\<lambda>start.
       case segmentTooStraight (slice points start (start + segmentSize)) of
         None \<Rightarrow> [] | Some b \<Rightarrow> [b]) (segmentStarts (length points) segmentSize))"

definition tooStraightSegments :: "point list \<Rightarrow> nat" where
  "tooStraightSegments points = countTrue (straightSegments points)"

definition totalSegments :: "point list \<Rightarrow> nat" where
  "totalSegments points = length (straightSegments points)"

definition straightRatio :: "point list \<Rightarrow> real" where
  "straightRatio points =
     (if totalSegments points > 0
      then real (tooStraightSegments points) / real (totalSegments points) else 0)"

subsection \<open>7. Jerk analysis\<close>

record velocity =
  vx :: real
  vy :: real
  vt :: real

record acceleration =
  ax :: real
  ay :: real
  atm :: real

definition velocities :: "point list \<Rightarrow> velocity list" where
  "velocities points =
     concat (map (\<lambda>(p, q).
       let dt = pt q - pt p
       in if dt > 0 then
            [\<lparr>vx = (px q - px p) / dt, vy = (py q - py p) / dt, vt = pt q\<rparr>]
          else []) (pairs points))"

definition accelerations :: "point list \<Rightarrow> acceleration list" where
  "accelerations points =
     concat (map (\<lambda>(u, v).
       let dt = vt v - vt u
       in if dt > 0 then
            [\<lparr>ax = (vx v - vx u) / dt, ay = (vy v - vy u) / dt, atm = vt v\<rparr>]
          else []) (pairs (velocities points)))"

definition jerks :: "point list \<Rightarrow> real list" where
  "jerks points =
     concat (map (\<lambda>(a, b).
       let dt = atm b - atm a
       in if dt > 0 then
            let jx = (ax b - ax a) / dt;
                jy = (ay b - ay a) / dt
            in [sqrt (jx * jx + jy * jy)]
          else []) (pairs (accelerations points)))"

definition jerkSpikes :: "point list \<Rightarrow> nat" where
  "jerkSpikes points =
     (let js = jerks points in
      if length js > 10 then
        let jerkMean = sum_list js / real (length js);
            jerkVariance = sum_list (map (\<lambda>j. (j - jerkMean)\<^sup>2) js) / real (length js);
            jerkStd = sqrt jerkVariance
        in count (\<lambda>j. \<bar>j - jerkMean\<bar> > 2 * jerkStd) js
      else 0)"

definition jerkSpikeRatio :: "point list \<Rightarrow> real" where
  "jerkSpikeRatio points =
     (if length (jerks points) > 0
      then real (jerkSpikes points) / real (length (jerks points)) else 0)"

subsection \<open>8. Acceleration sign changes\<close>

definition accelSignStep :: "acceleration \<Rightarrow> nat \<times> real \<times> real \<Rightarrow> nat \<times> real \<times> real" where
  "accelSignStep a s =
     (case s of (n, lastX, lastY) \<Rightarrow>
        let signX = sgn (ax a);
            signY = sgn (ay a)
        in (n + (if lastX \<noteq> 0 \<and> signX \<noteq> 0 \<and> signX \<noteq> lastX then 1 else 0)
              + (if lastY \<noteq> 0 \<and> signY \<noteq> 0 \<and> signY \<noteq> lastY then 1 else 0),
            if signX \<noteq> 0 then signX else lastX,
            if signY \<noteq> 0 then signY else lastY))"

definition accelSignChanges :: "point list \<Rightarrow> nat" where
  "accelSignChanges points = fst (fold accelSignStep (accelerations points) (0, 0, 0))"

definition accelSignChangeRate :: "point list \<Rightarrow> real" where
  "accelSignChangeRate points =
     (if length (accelerations points) > 0
      then real (accelSignChanges points) / real (length (accelerations points)) else 0)"

subsection \<open>9. Timing regularity\<close>

definition timingVariance :: "point list \<Rightarrow> real" where
  "timingVariance points =
     (let gs = timeGaps points in
      if length gs > 10 then
        let timingMean = sum_list gs / real (length gs)
        in sum_list (map (\<lambda>g. (g - timingMean)\<^sup>2) gs) / real (length gs)
      else 0)"

definition timingCV :: "point list \<Rightarrow> jsnum" where
  "timingCV points =
     (if timingVariance points > 0
      then jsdiv (sqrt (timingVariance points))
             (sum_list (timeGaps points) / real (length (timeGaps points)))
      else Fin 0)"

subsection \<open>10. Curvature consistency\<close>

definition curvatures :: "point list \<Rightarrow> real list" where
  "curvatures points =
     map (\<lambda>(p, q, r).
       let v1x = px q - px p;
           v1y = py q - py p;
           v2x = px r - px q;
           v2y = py r - py q;
           cross = v1x * v2y - v1y * v2x;
           dot = v1x * v2x + v1y * v2y
       in atan2 cross dot) (triples points)"

definition suddenCurvatureChanges :: "point list \<Rightarrow> nat" where
  "suddenCurvatureChanges points =
     count (\<lambda>(c0, c1). \<bar>c1 - c0\<bar> > 0.3) (pairs (curvatures points))"

definition curvatureChangeRate :: "point list \<Rightarrow> real" where
  "curvatureChangeRate points =
     (if length (curvatures points) > 0
      then real (suddenCurvatureChanges points) / real (length (curvatures points)) else 0)"

subsection \<open>11. Velocity peaks\<close>

definition speedMagnitudes :: "point list \<Rightarrow> real list" where
  "speedMagnitudes points = map (\<lambda>v. sqrt (vx v * vx v + vy v * vy v)) (velocities points)"

definition velocityPeaks :: "point list \<Rightarrow> nat" where
  "velocityPeaks points =
     (let sm = speedMagnitudes points in
      count (\<lambda>i.
        let prev = (sm ! (i - 2) + sm ! (i - 1)) / 2;
            curr = sm ! i;
            next = (sm ! (i + 1) + sm ! (i + 2)) / 2
        in curr > prev * 1.15 \<and> curr > next * 1.15 \<and> curr > 0.5) [2..<length sm - 2])"

definition velocityPeaksPerSecond :: "point list \<Rightarrow> jsnum" where
  "velocityPeaksPerSecond points =
     jsdiv (real (velocityPeaks points)) (duration points / 1000)"

subsection \<open>12. Path efficiency\<close>

definition totalPathLength :: "point list \<Rightarrow> real" where
  "totalPathLength points =
     sum_list (map (\<lambda>(p, q).
       let dx = px q - px p;
           dy = py q - py p
       in sqrt (dx * dx + dy * dy)) (pairs points))"

definition directDistance :: "point list \<Rightarrow> real" where
  "directDistance points =
     sqrt ((px (last points) - px (hd points))\<^sup>2 + (py (last points) - py (hd points))\<^sup>2)"

definition pathEfficiency :: "point list \<Rightarrow> real" where
  "pathEfficiency points =
     (if directDistance points > 0
      then directDistance points / totalPathLength points else 0)"

subsection \<open>13. Noise autocorrelation\<close>

definition residuals :: "point list \<Rightarrow> (real \<times> real) list" where
  "residuals points =
     map (\<lambda>i.
       let expectedX = (px (points ! (i - 2)) + px (points ! (i - 1))
                        + px (points ! (i + 1)) + px (points ! (i + 2))) / 4;
           expectedY = (py (points ! (i - 2)) + py (points ! (i - 1))
                        + py (points ! (i + 1)) + py (points ! (i + 2))) / 4
       in (px (points ! i) - expectedX, py (points ! i) - expectedY))
       [2..<length points - 2]"

definition noiseAutocorr :: "point list \<Rightarrow> real" where
  "noiseAutocorr points =
     (let rs = residuals points in
      if length rs > 10 then
        let meanX = sum_list (map fst rs) / real (length rs);
            meanY = sum_list (map snd rs) / real (length rs);
            autocorrSum =
              sum_list (map (\<lambda>(r0, r1).
                (fst r1 - meanX) * (fst r0 - meanX) + (snd r1 - meanY) * (snd r0 - meanY))
                (pairs rs));
            varianceSum =
              sum_list (map (\<lambda>r. (fst r - meanX)\<^sup>2 + (snd r - meanY)\<^sup>2) rs)
        in if varianceSum > 0 then autocorrSum / varianceSum else 0
      else 0)"

subsection \<open>14. Direction change histogram\<close>

definition directionChanges :: "point list \<Rightarrow> real list" where
  "directionChanges points = map abs (tl (curvatures points))"

definition directionEntropy :: "point list \<Rightarrow> real" where
  "directionEntropy points =
     (let ds = directionChanges points;
          smallChanges = count (\<lambda>d. d < 0.05) ds;
          mediumChanges = count (\<lambda>d. d \<ge> 0.05 \<and> d < 0.2) ds;
          largeChanges = count (\<lambda>d. d \<ge> 0.2) ds;
          total = (if length ds = 0 then 1 else length ds)
      in - sum_list (map (\<lambda>p. p * log 2 p)
             (filter (\<lambda>p. p > 0)
                [real smallChanges / real total, real mediumChanges / real total,
                 real largeChanges / real total])))"

subsection \<open>15. Overshoot detection\<close>

definition velReversalStep :: "velocity \<Rightarrow> nat \<times> real option \<Rightarrow> nat \<times> real option" where
  "velReversalStep v s =
     (case s of (n, lastVelAngle) \<Rightarrow>
        let velAngle = atan2 (vy v) (vx v)
        in (case lastVelAngle of
              None \<Rightarrow> n
            | Some l \<Rightarrow>
                let d = \<bar>velAngle - l\<bar>;
                    angleDiff = (if d > pi then 2 * pi - d else d)
                in if angleDiff > pi / 2 then n + 1 else n,
            Some velAngle))"

definition velocityReversals :: "point list \<Rightarrow> nat" where
  "velocityReversals points = fst (fold velReversalStep (velocities points) (0, None))"

definition reversalRate :: "point list \<Rightarrow> real" where
  "reversalRate points =
     (if length (velocities points) > 0
      then real (velocityReversals points) / real (length (velocities points)) else 0)"

subsection \<open>16. Hesitation detection\<close>

definition hesitations :: "point list \<Rightarrow> nat" where
  "hesitations points =
     (let sm = speedMagnitudes points in
      count (\<lambda>i.
        let before = sum_list (slice sm (i - 5) i) / 5;
            atI = sm ! i;
            after = sum_list (slice sm (i + 1) (i + 6)) / 5
        in atI < before * 0.5 \<and> atI < after * 0.5 \<and> before > 0.3 \<and> after > 0.3)
        [5..<length sm - 5])"

definition hesitationRate :: "point list \<Rightarrow> real" where
  "hesitationRate points =
     (if length (speedMagnitudes points) > 0
      then real (hesitations points) / real (length (speedMagnitudes points)) else 0)"

subsection \<open>17. Jerk autocorrelation\<close>

definition jerkAutocorr :: "point list \<Rightarrow> real" where
  "jerkAutocorr points =
     (let js = jerks points in
      if length js > 20 then
        let jerkMean = sum_list js / real (length js);
            autocorrNum =
              sum_list (map (\<lambda>(j0, j1). (j1 - jerkMean) * (j0 - jerkMean)) (pairs js));
            autocorrDenom = sum_list (map (\<lambda>j. (j - jerkMean)\<^sup>2) js)
        in if autocorrDenom > 0 then autocorrNum / autocorrDenom else 0
      else 0)"

subsection \<open>18. Acceleration linearity\<close>

definition accelSegmentR2 :: "acceleration list \<Rightarrow> real" where
  "accelSegmentR2 segment =
     (let accelMags = map (\<lambda>a. sqrt (ax a * ax a + ay a * ay a)) segment;
          n = real (length accelMags);
          sumX = n * (n - 1) / 2;
          sumX2 = n * (n - 1) * (2 * n - 1) / 6;
          sumY = sum_list accelMags;
          sumXY = sum_list (map (\<lambda>(i, v). real i * v) (enumerate 0 accelMags));
          slope = (n * sumXY - sumX * sumY) / (n * sumX2 - sumX * sumX);
          intercept = (sumY - slope * sumX) / n;
          yMean = sumY / n;
          ssRes = sum_list (map (\<lambda>(i, v). (v - (intercept + slope * real i))\<^sup>2)
                    (enumerate 0 accelMags));
          ssTot = sum_list (map (\<lambda>v. (v - yMean)\<^sup>2) accelMags)
      in if ssTot > 0 then 1 - ssRes / ssTot else 0)"

definition accelSegmentSize :: nat where
  "accelSegmentSize = 15"

definition linearAccelFlags :: "point list \<Rightarrow> bool list" where
  "linearAccelFlags points =
     (let acs = accelerations points in
      map (\<lambda>start. accelSegmentR2 (slice acs start (start + accelSegmentSize)) > 0.85)
        (segmentStarts (length acs) accelSegmentSize))"

definition linearAccelRatio :: "point list \<Rightarrow> real" where
  "linearAccelRatio points =
     (if length (linearAccelFlags points) > 0
      then real (countTrue (linearAccelFlags points)) / real (length (linearAccelFlags points))
      else 0)"

subsection \<open>19. Speed profile asymmetry\<close>

text \<open>\<^verbatim>\<open>xs.indexOf(v)\<close> for a value that occurs in \<open>xs\<close>.\<close>

definition indexOf :: "real list \<Rightarrow> real \<Rightarrow> nat" where
  "indexOf xs v = length (takeWhile (\<lambda>a. a \<noteq> v) xs)"

definition movementStarts :: "real list \<Rightarrow> nat list" where
  "movementStarts sm =
     [0] @ filter (\<lambda>i. sm ! (i - 1) < 0.3 \<and> sm ! i > 0.5) [1..<length sm] @ [length sm]"

definition movementFlags :: "point list \<Rightarrow> bool list" where
  "movementFlags points =
     (let sm = speedMagnitudes points in
      concat (map (\<lambda>(start, end).
        if int end - int start < 10 then []
        else
          let segment = slice sm start end;
              peakIdx = indexOf segment (maxList segment)
          in if peakIdx > 2 \<and> peakIdx < length segment - 2 then
               let accelPhase = peakIdx;
                   decelPhase = length segment - peakIdx;
                   ratio = real (min accelPhase decelPhase) / real (max accelPhase decelPhase)
               in [ratio > 0.7]
             else []) (pairs (movementStarts sm))))"

definition symmetryRatio :: "point list \<Rightarrow> real" where
  "symmetryRatio points =
     (if length (movementFlags points) > 0
      then real (countTrue (movementFlags points)) / real (length (movementFlags points))
      else 0)"

subsection \<open>20. X-Y noise correlation\<close>

definition xyNoiseCorr :: "point list \<Rightarrow> real" where
  "xyNoiseCorr points =
     (let rs = residuals points in
      if length rs > 10 then
        let meanX = sum_list (map fst rs) / real (length rs);
            meanY = sum_list (map snd rs) / real (length rs);
            covXY = sum_list (map (\<lambda>r. (fst r - meanX) * (snd r - meanY)) rs);
            varX = sum_list (map (\<lambda>r. (fst r - meanX)\<^sup>2) rs);
            varY = sum_list (map (\<lambda>r. (snd r - meanY)\<^sup>2) rs)
        in if varX > 0 \<and> varY > 0 then \<bar>covXY / sqrt (varX * varY)\<bar> else 0
      else 0)"

subsection \<open>21. Movement initiation\<close>

definition perfectStartFlags :: "point list \<Rightarrow> bool list" where
  "perfectStartFlags points =
     concat (map (\<lambda>i.
       let gap = pt (points ! i) - pt (points ! (i - 1))
       in if gap > 100 then
            let initPoints = slice points i (i + 8)
            in if length initPoints \<ge> 8 then
                 let dir1 = atan2 (py (initPoints ! 2) - py (initPoints ! 0))
                              (px (initPoints ! 2) - px (initPoints ! 0));
                     dir2 = atan2 (py (initPoints ! 7) - py (initPoints ! 5))
                              (px (initPoints ! 7) - px (initPoints ! 5));
                     d = \<bar>dir1 - dir2\<bar>;
                     dirDiff = (if d > pi then 2 * pi - d else d)
                 in [dirDiff < 0.35]
               else []
          else []) [1..<length points - 10])"

definition perfectStartRatio :: "point list \<Rightarrow> real" where
  "perfectStartRatio points =
     (if length (perfectStartFlags points) > 0
      then real (countTrue (perfectStartFlags points)) / real (length (perfectStartFlags points))
      else 0)"

subsection \<open>22. Initial acceleration pattern\<close>

definition initSpeeds :: "point list \<Rightarrow> nat \<Rightarrow> real list" where
  "initSpeeds points i =
     concat (map (\<lambda>j.
       let dt = pt (points ! j) - pt (points ! (j - 1))
       in if dt > 0 then
            let dx = px (points ! j) - px (points ! (j - 1));
                dy = py (points ! j) - py (points ! (j - 1))
            in [sqrt (dx * dx + dy * dy) / dt]
          else []) [i..<min (i + 6) (length points)])"

definition smoothStartFlags :: "point list \<Rightarrow> bool list" where
  "smoothStartFlags points =
     concat (map (\<lambda>i.
       let gap = pt (points ! i) - pt (points ! (i - 1))
       in if gap > 100 then
            let sp = initSpeeds points i
            in if length sp \<ge> 4 then
                 [list_all (\<lambda>(s0, s1). \<not> s1 < s0 * 0.9) (pairs sp)]
               else []
          else []) [1..<length points - 8])"

definition smoothStartRatio :: "point list \<Rightarrow> real" where
  "smoothStartRatio points =
     (if length (smoothStartFlags points) > 0
      then real (countTrue (smoothStartFlags points)) / real (length (smoothStartFlags points))
      else 0)"

subsection \<open>23. Micro-movements during pauses\<close>

definition fidgetFlags :: "point list \<Rightarrow> bool list" where
  "fidgetFlags points =
     (let sm = speedMagnitudes points in
      concat (map (\<lambda>i.
        let localSpeed = sum_list (slice sm (i - 2) (i + 3)) / 5
        in if localSpeed < 0.2 then
             let microDist =
                   sqrt ((px (points ! (i + 2)) - px (points ! (i - 2)))\<^sup>2
                       + (py (points ! (i + 2)) - py (points ! (i - 2)))\<^sup>2)
             in [microDist > 1 \<and> microDist < 10]
           else []) [5..<length sm - 5]))"

definition fidgetRatio :: "point list \<Rightarrow> real" where
  "fidgetRatio points =
     (if length (fidgetFlags points) > 0
      then real (countTrue (fidgetFlags points)) / real (length (fidgetFlags points))
      else 0)"

subsection \<open>The combined check\<close>

definition bezierSignals :: "point list \<Rightarrow> bool list" where
  "bezierSignals points =
     [jerkSpikeRatio points < 0.035,
      accelSignChangeRate points < 0.35,
      curvatureChangeRate points < 0.12,
      js_lt (velocityPeaksPerSecond points) (Fin 2.0),
      pathEfficiency points > 0.75,
      \<bar>noiseAutocorr points\<bar> < 0.08,
      directionEntropy points < 1.4,
      reversalRate points < 0.02,
      \<bar>jerkAutocorr points\<bar> < 0.12,
      linearAccelRatio points > 0.3,
      symmetryRatio points > 0.6,
      xyNoiseCorr points < 0.10,
      perfectStartRatio points > 0.9,
      smoothStartRatio points > 0.6,
      fidgetRatio points < 0.10,
      reversalRatio points > 0.15,
      smoothRatio points < 0.45,
      curvatureChangeRate points > 0.55]"

definition bezierSignalCount :: "point list \<Rightarrow> nat" where
  "bezierSignalCount points = countTrue (bezierSignals points)"

definition isBezierLike :: "point list \<Rightarrow> bool" where
  "isBezierLike points = (bezierSignalCount points \<ge> 3)"

definition isTimingTooRegular :: "point list \<Rightarrow> bool" where
  "isTimingTooRegular points = js_lt (timingCV points) (Fin 0.12)"

definition notRoboticCheck :: "point list \<Rightarrow> bool" where
  "notRoboticCheck points =
     (straightRatio points < 0.5 \<and> \<not> isBezierLike points \<and> \<not> isTimingTooRegular points)"

section \<open>The analysis result\<close>

text \<open>
  The \<^verbatim>\<open>metrics\<close> object of the result; each field \<open>m_f\<close> is the source's field \<open>f\<close>.
\<close>

record metrics =
  m_speedVariation :: real
  m_smoothRatio :: real
  m_reversalRatio :: real
  m_continuousRatio :: real
  m_pointsPerSecond :: jsnum
  m_straightRatio :: real
  m_jerkSpikeRatio :: real
  m_accelSignChangeRate :: real
  m_curvatureChangeRate :: real
  m_timingCV :: jsnum
  m_velocityPeaksPerSecond :: jsnum
  m_pathEfficiency :: real
  m_noiseAutocorr :: real
  m_directionEntropy :: real
  m_reversalRate :: real
  m_hesitationRate :: real
  m_jerkAutocorr :: real
  m_linearAccelRatio :: real
  m_symmetryRatio :: real
  m_xyNoiseCorr :: real
  m_perfectStartRatio :: real
  m_smoothStartRatio :: real
  m_fidgetRatio :: real
  m_bezierSignalCount :: nat
  m_isBezierLike :: bool
  m_isTimingTooRegular :: bool
  m_triggeredSignals :: "nat list"

definition metricsOf :: "point list \<Rightarrow> metrics" where
  "metricsOf points =
     \<lparr>m_speedVariation =
        (if length (speeds points) > 0
         then maxList (speeds points) / minList (speeds points) else 0),
      m_smoothRatio = smoothRatio points,
      m_reversalRatio = reversalRatio points,
      m_continuousRatio = continuousRatio points,
      m_pointsPerSecond = pointsPerSecond points,
      m_straightRatio = straightRatio points,
      m_jerkSpikeRatio = jerkSpikeRatio points,
      m_accelSignChangeRate = accelSignChangeRate points,
      m_curvatureChangeRate = curvatureChangeRate points,
      m_timingCV = timingCV points,
      m_velocityPeaksPerSecond = velocityPeaksPerSecond points,
      m_pathEfficiency = pathEfficiency points,
      m_noiseAutocorr = noiseAutocorr points,
      m_directionEntropy = directionEntropy points,
      m_reversalRate = reversalRate points,
      m_hesitationRate = hesitationRate points,
      m_jerkAutocorr = jerkAutocorr points,
      m_linearAccelRatio = linearAccelRatio points,
      m_symmetryRatio = symmetryRatio points,
      m_xyNoiseCorr = xyNoiseCorr points,
      m_perfectStartRatio = perfectStartRatio points,
      m_smoothStartRatio = smoothStartRatio points,
      m_fidgetRatio = fidgetRatio points,
      m_bezierSignalCount = bezierSignalCount points,
      m_isBezierLike = isBezierLike points,
      m_isTimingTooRegular = isTimingTooRegular points,
      m_triggeredSignals = map fst (filter snd (enumerate 0 (bezierSignals points)))\<rparr>"

text \<open>
  The options of a call: each is a number or absent. The result: a field that the
  early return does not set is \<open>None\<close>. The result's field \<^verbatim>\<open>duration\<close> is \<open>durationMs\<close>.
\<close>

record options =
  optTargetHitsRequired :: "jsnum option"
  optTargetHits :: "jsnum option"

record result =
  verified :: bool
  reason :: "string option"
  checks :: checks
  checksPassed :: nat
  totalChecks :: "nat option"
  aiDetected :: bool
  durationMs :: "real option"
  pointCount :: "nat option"
  detectionVersion :: "string option"
  metrics :: "metrics option"

definition DETECTION_VERSION :: string where
  "DETECTION_VERSION = ''1.4.0''"

definition targetHitsRequired :: "options \<Rightarrow> jsnum" where
  "targetHitsRequired opts = js_or (optTargetHitsRequired opts) (Fin 5)"

definition targetHits :: "options \<Rightarrow> jsnum" where
  "targetHits opts = js_or (optTargetHits opts) (Fin 0)"

definition targetCheck :: "options \<Rightarrow> bool" where
  "targetCheck opts = js_ge (targetHits opts) (targetHitsRequired opts)"

definition initialChecks :: checks where
  "initialChecks =
     \<lparr>speed = False, curves = False, jitter = False, timing = False,
      continuous = False, notRobotic = True\<rparr>"

definition computedChecks :: "point list \<Rightarrow> checks" where
  "computedChecks points =
     initialChecks
       \<lparr>speed := speedCheck points,
        curves := curvesCheck points,
        jitter := jitterCheck points,
        timing := timingCheck points,
        continuous := continuousCheck points,
        notRobotic := notRoboticCheck points\<rparr>"

definition checkValues :: "checks \<Rightarrow> bool list" where
  "checkValues c = [speed c, curves c, jitter c, timing c, continuous c, notRobotic c]"

definition aiFailures :: "checks \<Rightarrow> nat" where
  "aiFailures c = countTrue [\<not> curves c, \<not> continuous c, \<not> notRobotic c, \<not> timing c]"

definition analyzeMovement :: "point list \<Rightarrow> options \<Rightarrow> result" where
  "analyzeMovement points opts =
     (if length points < 15 then
        \<lparr>verified = False,
         reason = Some ''insufficient_data'',
         checks = initialChecks,
         checksPassed = 0,
         totalChecks = None,
         aiDetected = False,
         durationMs = None,
         pointCount = None,
         detectionVersion = None,
         metrics = None\<rparr>
      else
        let c = computedChecks points;
            passed = countTrue (checkValues c) + (if targetCheck opts then 1 else 0);
            allPassed = (list_all (\<lambda>b. b) (checkValues c) \<and> targetCheck opts)
        in \<lparr>verified = allPassed,
            reason = None,
            checks = c,
            checksPassed = passed,
            totalChecks = Some 7,
            aiDetected = (aiFailures c \<ge> 2),
            durationMs = Some (duration points),
            pointCount = Some (length points),
            detectionVersion = Some DETECTION_VERSION,
            metrics = Some (metricsOf points)\<rparr>)"

section \<open>Signatures\<close>

text \<open>
  The keyed hash, the hash and the serialisation are the runtime's
  (\<^verbatim>\<open>crypto.createHmac('sha256', key).update(data).digest('hex')\<close>,
  \<^verbatim>\<open>crypto.createHash('sha256').update(data).digest('hex')\<close> and \<^verbatim>\<open>JSON.stringify\<close>);
  they are parameters of the model. A string is its sequence of bytes, which is what
  \<^verbatim>\<open>Buffer.from\<close> yields. \<^verbatim>\<open>Date.now()\<close> is a parameter of each function that reads it.
\<close>

record runtime =
  hmacSha256Hex :: "string \<Rightarrow> string \<Rightarrow> string"
  sha256Hex :: "string \<Rightarrow> string"
  stringifyPoints :: "point list \<Rightarrow> string"
  stringifyPayload :: "string \<Rightarrow> string \<Rightarrow> int \<Rightarrow> nat \<Rightarrow> string"

record signData =
  dataPoints :: "point list"
  dataRecordId :: string
  dataChecksPassed :: nat

record attestation =
  signature :: string
  timestamp :: int
  payload :: string

definition hashMovement :: "runtime \<Rightarrow> point list \<Rightarrow> string" where
  "hashMovement rt points = sha256Hex rt (stringifyPoints rt points)"

definition generateSignature :: "runtime \<Rightarrow> int \<Rightarrow> string \<Rightarrow> signData \<Rightarrow> attestation" where
  "generateSignature rt now secretKey d =
     (let ts = now;
          pl = stringifyPayload rt (hashMovement rt (dataPoints d)) (dataRecordId d) ts
                 (dataChecksPassed d);
          sg = hmacSha256Hex rt secretKey pl
      in \<lparr>signature = sg, timestamp = ts, payload = pl\<rparr>)"

text \<open>
  \<^verbatim>\<open>crypto.timingSafeEqual(a, b)\<close> throws a \<^verbatim>\<open>RangeError\<close> when the byte lengths of
  its arguments differ.
\<close>

datatype error = RangeError

definition timingSafeEqual :: "string \<Rightarrow> string \<Rightarrow> error + bool" where
  "timingSafeEqual a b = (if length a \<noteq> length b then Inl RangeError else Inr (a = b))"

definition verifySignature :: "runtime \<Rightarrow> string \<Rightarrow> string \<Rightarrow> string \<Rightarrow> error + bool" where
  "verifySignature rt secretKey sg pl =
     (let expectedSignature = hmacSha256Hex rt secretKey pl
      in timingSafeEqual sg expectedSignature)"

section \<open>The session registry\<close>

record session =
  sessSignature :: string
  sessTimestamp :: int
  sessRecordId :: "string option"
  expiresAt :: int

type_synonym registry = "string \<rightharpoonup> session"

text \<open>
  The loop that deletes the expired sessions; the clock is read once for the loop.
\<close>

definition sweep :: "int \<Rightarrow> registry \<Rightarrow> registry" where
  "sweep now sessions =
     (\<lambda>k. case sessions k of
            None \<Rightarrow> None
          | Some v \<Rightarrow> if expiresAt v < now then None else Some v)"

text \<open>
  The branch \<^verbatim>\<open>if (result.verified) { ... }\<close> of \<^verbatim>\<open>POST /api/verify\<close>: it signs, stores
  the session and sweeps. \<open>tSign\<close>, \<open>tStore\<close> and \<open>tSweep\<close> are its three readings of the
  clock. \<open>recordId\<close> is \<open>None\<close> when the request has none.
\<close>

definition orAnonymous :: "string option \<Rightarrow> string" where
  "orAnonymous recordId =
     (case recordId of None \<Rightarrow> ''anonymous'' | Some r \<Rightarrow> if r = [] then ''anonymous'' else r)"

definition issueSession ::
  "runtime \<Rightarrow> string \<Rightarrow> int \<Rightarrow> int \<Rightarrow> int \<Rightarrow> point list \<Rightarrow> string option \<Rightarrow> nat \<Rightarrow> registry
     \<Rightarrow> attestation \<times> string \<times> registry" where
  "issueSession rt secretKey tSign tStore tSweep points recordId passed sessions =
     (let sigData = generateSignature rt tSign secretKey
                      \<lparr>dataPoints = points, dataRecordId = orAnonymous recordId,
                       dataChecksPassed = passed\<rparr>;
          sessionId = take 16 (signature sigData);
          stored = sessions(sessionId \<mapsto>
                     \<lparr>sessSignature = signature sigData,
                      sessTimestamp = timestamp sigData,
                      sessRecordId = recordId,
                      expiresAt = tStore + 3600000\<rparr>)
      in (sigData, sessionId, sweep tSweep stored))"

record verifyRequest =
  reqPoints :: "point list option"
  reqTargetHits :: "jsnum option"
  reqRecordId :: "string option"

record verifiedBody =
  vSignature :: string
  vSessionId :: string
  vTimestamp :: int
  vChecks :: checks
  vChecksPassed :: nat
  vMetrics :: "metrics option"

record failedBody =
  fAiDetected :: bool
  fChecks :: checks
  fChecksPassed :: nat
  fReason :: string
  fMetrics :: "metrics option"

datatype verifyResponse =
  VerifyBadRequest string
  | VerifiedOk verifiedBody
  | NotVerifiedOk failedBody

definition apiVerify ::
  "runtime \<Rightarrow> string \<Rightarrow> int \<Rightarrow> int \<Rightarrow> int \<Rightarrow> verifyRequest \<Rightarrow> registry
     \<Rightarrow> verifyResponse \<times> registry" where
  "apiVerify rt secretKey tSign tStore tSweep req sessions =
     (case reqPoints req of
        None \<Rightarrow> (VerifyBadRequest ''Missing or invalid points array'', sessions)
      | Some points \<Rightarrow>
          let res = analyzeMovement points
                      \<lparr>optTargetHitsRequired = Some (Fin 5),
                       optTargetHits = Some (js_or (reqTargetHits req) (Fin 0))\<rparr>
          in if verified res then
               (case issueSession rt secretKey tSign tStore tSweep points (reqRecordId req)
                       (checksPassed res) sessions of
                  (sigData, sessionId, sessions') \<Rightarrow>
                    (VerifiedOk
                       \<lparr>vSignature = signature sigData,
                        vSessionId = sessionId,
                        vTimestamp = timestamp sigData,
                        vChecks = checks res,
                        vChecksPassed = checksPassed res,
                        vMetrics = metrics res\<rparr>, sessions'))
             else
               (NotVerifiedOk
                  \<lparr>fAiDetected = aiDetected res,
                   fChecks = checks res,
                   fChecksPassed = checksPassed res,
                   fReason = (case reason res of None \<Rightarrow> ''checks_failed''
                              | Some r \<Rightarrow> if r = [] then ''checks_failed'' else r),
                   fMetrics = metrics res\<rparr>, sessions))"

text \<open>
  \<^verbatim>\<open>POST /api/verify-signature\<close>. A field of the request body is \<open>None\<close> when it is
  missing; the empty string is falsy as well. In the response \<open>lookupRecordId\<close> and
  \<open>lookupTimestamp\<close> are \<open>None\<close> for \<^verbatim>\<open>null\<close> and for a field that is not set.
\<close>

record lookupRequest =
  reqSessionId :: "string option"
  reqSignature :: "string option"

record lookupBody =
  valid :: bool
  lookupReason :: "string option"
  lookupRecordId :: "string option"
  lookupTimestamp :: "int option"

datatype lookupResponse =
  LookupBadRequest string
  | LookupOk lookupBody

definition falsyString :: "string option \<Rightarrow> bool" where
  "falsyString v = (case v of None \<Rightarrow> True | Some w \<Rightarrow> w = [])"

definition apiVerifySignature ::
  "int \<Rightarrow> lookupRequest \<Rightarrow> registry \<Rightarrow> lookupResponse \<times> registry" where
  "apiVerifySignature now req sessions =
     (if falsyString (reqSessionId req) \<or> falsyString (reqSignature req) then
        (LookupBadRequest ''Missing sessionId or signature'', sessions)
      else
        let sessionId = the (reqSessionId req);
            sg = the (reqSignature req)
        in case sessions sessionId of
             None \<Rightarrow>
               (LookupOk \<lparr>valid = False, lookupReason = Some ''session_not_found'',
                          lookupRecordId = None, lookupTimestamp = None\<rparr>, sessions)
           | Some s \<Rightarrow>
               if expiresAt s < now then
                 (LookupOk \<lparr>valid = False, lookupReason = Some ''session_expired'',
                            lookupRecordId = None, lookupTimestamp = None\<rparr>,
                  sessions(sessionId := None))
               else
                 let v = (sessSignature s = sg)
                 in (LookupOk \<lparr>valid = v, lookupReason = None,
                                lookupRecordId = (if v then sessRecordId s else None),
                                lookupTimestamp = (if v then Some (sessTimestamp s) else None)\<rparr>,
                     sessions))"

section \<open>The coefficient of variation\<close>

text \<open>
  The specification's third test of \<open>notRobotic\<close> is on the coefficient of variation of
  the time gaps: the population standard deviation divided by the mean. These
  definitions follow the specification; \<open>timingCV\<close> above follows the source.
\<close>

definition meanOf :: "real list \<Rightarrow> real" where
  "meanOf xs = sum_list xs / real (length xs)"

definition varianceOf :: "real list \<Rightarrow> real" where
  "varianceOf xs = sum_list (map (\<lambda>v. (v - meanOf xs)\<^sup>2) xs) / real (length xs)"

definition coefficientOfVariation :: "real list \<Rightarrow> jsnum" where
  "coefficientOfVariation xs = jsdiv (sqrt (varianceOf xs)) (meanOf xs)"

section \<open>A human-like path\<close>

text \<open>
  A test input: 17 samples on a line of direction \<open>(3, 4)\<close>, with a varying speed, one
  burst, one reversal near the end and irregular time gaps.
\<close>

definition humanLikePath :: "point list" where
  "humanLikePath =
     [\<lparr>px = 0, py = 0, pt = 0\<rparr>,
      \<lparr>px = 4.5, py = 6, pt = 32\<rparr>,
      \<lparr>px = 6, py = 8, pt = 96\<rparr>,
      \<lparr>px = 7.5, py = 10, pt = 160\<rparr>,
      \<lparr>px = 10.5, py = 14, pt = 192\<rparr>,
      \<lparr>px = 12, py = 16, pt = 224\<rparr>,
      \<lparr>px = 13.5, py = 18, pt = 240\<rparr>,
      \<lparr>px = 14.25, py = 19, pt = 256\<rparr>,
      \<lparr>px = 17.25, py = 23, pt = 264\<rparr>,
      \<lparr>px = 18, py = 24, pt = 272\<rparr>,
      \<lparr>px = 18.75, py = 25, pt = 304\<rparr>,
      \<lparr>px = 19.5, py = 26, pt = 320\<rparr>,
      \<lparr>px = 21, py = 28, pt = 336\<rparr>,
      \<lparr>px = 22.5, py = 30, pt = 352\<rparr>,
      \<lparr>px = 23.25, py = 31, pt = 384\<rparr>,
      \<lparr>px = 21.75, py = 29, pt = 400\<rparr>,
      \<lparr>px = 19.5, py = 26, pt = 416\<rparr>]"

section \<open>Auxiliary facts\<close>

subsection \<open>The aggregation\<close>

lemma countTrue_le_length: "countTrue bs \<le> length bs"
  by (simp add: countTrue_def)

lemma countTrue_all_true: "list_all (\<lambda>b. b) bs \<Longrightarrow> countTrue bs = length bs"
  by (induction bs) (simp_all add: countTrue_def)

lemma length_checkValues: "length (checkValues c) = 6"
  by (simp add: checkValues_def)

lemma all_checkValues:
  "list_all (\<lambda>b. b) (checkValues c) =
     (speed c \<and> curves c \<and> jitter c \<and> timing c \<and> continuous c \<and> notRobotic c)"
  by (simp add: checkValues_def)

lemma countTrue_checkValues_le: "countTrue (checkValues c) \<le> 6"
  using countTrue_le_length [of "checkValues c"] by (simp add: length_checkValues)

lemma aiFailures_zero:
  "curves c \<Longrightarrow> continuous c \<Longrightarrow> notRobotic c \<Longrightarrow> timing c \<Longrightarrow> aiFailures c = 0"
  by (simp add: aiFailures_def countTrue_def)

lemma analyzeMovement_short:
  "length points < 15 \<Longrightarrow>
   analyzeMovement points opts =
     \<lparr>verified = False, reason = Some ''insufficient_data'', checks = initialChecks,
      checksPassed = 0, totalChecks = None, aiDetected = False, durationMs = None,
      pointCount = None, detectionVersion = None, metrics = None\<rparr>"
  by (simp add: analyzeMovement_def)

lemma analyzeMovement_long:
  "15 \<le> length points \<Longrightarrow>
   analyzeMovement points opts =
     \<lparr>verified = (list_all (\<lambda>b. b) (checkValues (computedChecks points)) \<and> targetCheck opts),
      reason = None,
      checks = computedChecks points,
      checksPassed = countTrue (checkValues (computedChecks points))
                       + (if targetCheck opts then 1 else 0),
      totalChecks = Some 7,
      aiDetected = (aiFailures (computedChecks points) \<ge> 2),
      durationMs = Some (duration points),
      pointCount = Some (length points),
      detectionVersion = Some DETECTION_VERSION,
      metrics = Some (metricsOf points)\<rparr>"
  by (simp add: analyzeMovement_def Let_def)

lemma verified_targetCheck: "verified (analyzeMovement points opts) \<Longrightarrow> targetCheck opts"
  by (cases "length points < 15") (simp_all add: analyzeMovement_short analyzeMovement_long)

lemma checksPassed_long:
  "15 \<le> length points \<Longrightarrow>
   checksPassed (analyzeMovement points opts) =
     countTrue (checkValues (checks (analyzeMovement points opts)))
       + (if targetCheck opts then 1 else 0)"
  by (simp add: analyzeMovement_long)

lemma checks_long: "15 \<le> length points \<Longrightarrow> checks (analyzeMovement points opts) = computedChecks points"
  by (simp add: analyzeMovement_long)

lemma computedChecks_simps:
  "speed (computedChecks points) = speedCheck points"
  "curves (computedChecks points) = curvesCheck points"
  "jitter (computedChecks points) = jitterCheck points"
  "timing (computedChecks points) = timingCheck points"
  "continuous (computedChecks points) = continuousCheck points"
  "notRobotic (computedChecks points) = notRoboticCheck points"
  by (simp_all add: computedChecks_def)

subsection \<open>Time gaps\<close>

lemma length_pairs: "length (pairs xs) = length xs - 1"
  by (simp add: pairs_def)

lemma nth_pairs: "i + 1 < length xs \<Longrightarrow> pairs xs ! i = (xs ! i, xs ! (i + 1))"
  by (simp add: pairs_def nth_tl)

lemma length_timeGaps: "length (timeGaps points) = length points - 1"
  by (simp add: timeGaps_def length_pairs)

lemma nth_timeGaps:
  "i + 1 < length points \<Longrightarrow> timeGaps points ! i = pt (points ! (i + 1)) - pt (points ! i)"
  by (simp add: timeGaps_def length_pairs nth_pairs)

lemma count_timeGaps:
  "count P (timeGaps points) =
     card {i. i + 1 < length points \<and> P (pt (points ! (i + 1)) - pt (points ! i))}"
proof -
  have "{i. i < length (timeGaps points) \<and> P (timeGaps points ! i)} =
        {i. i + 1 < length points \<and> P (pt (points ! (i + 1)) - pt (points ! i))}"
    by (auto simp add: length_timeGaps nth_timeGaps)
  then show ?thesis
    by (simp add: count_def length_filter_conv_card)
qed

subsection \<open>Indices stay in range\<close>

lemma length_concat_map_le:
  "(\<And>a. length (f a) \<le> 1) \<Longrightarrow> length (concat (map f xs)) \<le> length xs"
proof (induction xs)
  case Nil
  then show ?case by simp
next
  case (Cons a xs)
  then have "length (f a) \<le> 1" and "length (concat (map f xs)) \<le> length xs"
    by simp_all
  then show ?case by simp
qed

lemma length_velocities_le: "length (velocities points) \<le> length points - 1"
proof -
  have "length (velocities points) \<le> length (pairs points)"
    unfolding velocities_def
    by (rule length_concat_map_le) (simp add: Let_def split: prod.split)
  then show ?thesis
    by (simp add: length_pairs)
qed

text \<open>
  The loop of signal 23 reads \<^verbatim>\<open>points[i + 2]\<close> for an index \<open>i\<close> of the speed
  magnitudes; the index is in range, since there are fewer velocities than samples.
\<close>

lemma fidget_index_in_range:
  assumes "i \<in> set [5..<length (speedMagnitudes points) - 5]"
  shows "i + 2 < length points" and "2 \<le> i"
proof -
  have "length (speedMagnitudes points) \<le> length points - 1"
    using length_velocities_le [of points] by (simp add: speedMagnitudes_def)
  with assms show "i + 2 < length points" and "2 \<le> i"
    by auto
qed

subsection \<open>The three tests of notRobotic\<close>

lemma varianceOf_nonneg: "0 \<le> varianceOf xs"
  unfolding varianceOf_def
  by (intro divide_nonneg_nonneg sum_list_nonneg) auto

lemma timingVariance_long:
  assumes "15 \<le> length points"
  shows "timingVariance points = varianceOf (timeGaps points)"
proof -
  have "length (timeGaps points) > 10"
    using assms by (simp add: length_timeGaps)
  then show ?thesis
    by (simp add: timingVariance_def varianceOf_def meanOf_def Let_def)
qed

lemma timingCV_long:
  "15 \<le> length points \<Longrightarrow>
   timingCV points =
     (if varianceOf (timeGaps points) > 0 then coefficientOfVariation (timeGaps points)
      else Fin 0)"
  by (simp add: timingCV_def timingVariance_long coefficientOfVariation_def meanOf_def)

lemma js_ge_jsdiv_pos:
  "0 < a \<Longrightarrow> js_ge (jsdiv a b) (Fin c) = (\<not> js_lt (jsdiv a b) (Fin c))"
  by (simp add: jsdiv_def)

lemma js_ge_jsdiv_zero: "0 < c \<Longrightarrow> \<not> js_ge (jsdiv 0 b) (Fin c)"
  by (simp add: jsdiv_def)

lemma not_tooRegular_iff:
  assumes "15 \<le> length points"
  shows "\<not> isTimingTooRegular points \<longleftrightarrow>
           js_ge (coefficientOfVariation (timeGaps points)) (Fin 0.12)"
proof (cases "varianceOf (timeGaps points) > 0")
  case True
  then have "0 < sqrt (varianceOf (timeGaps points))"
    by simp
  then show ?thesis
    using True assms
    by (simp add: isTimingTooRegular_def timingCV_long coefficientOfVariation_def
          js_ge_jsdiv_pos)
next
  case False
  then have z: "varianceOf (timeGaps points) = 0"
    using varianceOf_nonneg [of "timeGaps points"] by simp
  have "\<not> js_ge (coefficientOfVariation (timeGaps points)) (Fin 0.12)"
    unfolding coefficientOfVariation_def z by (simp add: js_ge_jsdiv_zero)
  then show ?thesis
    using False assms by (simp add: isTimingTooRegular_def timingCV_long)
qed

lemma straightRatio_lt_half:
  "straightRatio points < 0.5 \<longleftrightarrow>
     totalSegments points = 0 \<or> 2 * tooStraightSegments points < totalSegments points"
proof (cases "totalSegments points = 0")
  case True
  then show ?thesis by (simp add: straightRatio_def)
next
  case False
  then have "real (tooStraightSegments points) / real (totalSegments points) < 1 / 2 \<longleftrightarrow>
             2 * real (tooStraightSegments points) < real (totalSegments points)"
    by (simp add: field_simps)
  also have "\<dots> \<longleftrightarrow> 2 * tooStraightSegments points < totalSegments points"
    by (metis of_nat_less_iff of_nat_mult of_nat_numeral)
  finally show ?thesis
    using False by (simp add: straightRatio_def)
qed

lemma length_bezierSignals: "length (bezierSignals points) = 18"
  by (simp add: bezierSignals_def)

subsection \<open>Samples that are all identical\<close>

lemma zip_replicate_Suc: "zip (replicate (Suc n) p) (replicate n p) = replicate n (p, p)"
  by (induction n) simp_all

lemma pairs_replicate: "pairs (replicate n p) = replicate (n - 1) (p, p)"
proof (cases n)
  case 0
  then show ?thesis by (simp add: pairs_def)
next
  case (Suc m)
  then show ?thesis
    using zip_replicate_Suc [of m p] by (simp add: pairs_def)
qed

lemma triples_replicate: "triples (replicate n p) = replicate (n - 2) (p, p, p)"
proof -
  have "zip (replicate a p) (zip (replicate b p) (replicate c p))
          = replicate (min a (min b c)) (p, p, p)" for a b c
    by (simp add: zip_replicate)
  moreover have "min n (min (n - 1) (n - 1 - 1)) = n - 2"
    by arith
  ultimately show ?thesis
    by (simp add: triples_def)
qed

lemma concat_map_Nil: "(\<And>a. a \<in> set xs \<Longrightarrow> f a = []) \<Longrightarrow> concat (map f xs) = []"
  by (induction xs) simp_all

lemma velocities_replicate: "velocities (replicate n p) = []"
  unfolding velocities_def pairs_replicate
  by (rule concat_map_Nil) (simp add: Let_def)

lemma velocityPeaks_replicate: "velocityPeaks (replicate n p) = 0"
  by (simp add: velocityPeaks_def speedMagnitudes_def velocities_replicate count_def)

lemma duration_replicate: "0 < n \<Longrightarrow> duration (replicate n p) = 0"
  by (simp add: duration_def)

lemma timingCheck_replicate: "0 < n \<Longrightarrow> \<not> timingCheck (replicate n p)"
  by (simp add: timingCheck_def duration_replicate)

lemma curvesCheck_replicate: "\<not> curvesCheck (replicate n p)"
proof -
  have "angleFlags (replicate n p) = []"
    unfolding angleFlags_def triples_replicate
    by (rule concat_map_Nil) (simp add: Let_def mag_def)
  then show ?thesis
    by (simp add: curvesCheck_def smoothRatio_def smoothCount_def angleCount_def countTrue_def)
qed

subsection \<open>Square roots and \<open>pi\<close>\<close>

lemma pi_not_less_small: "\<not> pi * 10 < 3"
  using pi_ge_two by simp

lemma pi_greater_small: "3 < pi * 10"
  using pi_ge_two by simp

lemma pi_not_less_tiny: "\<not> pi * 20 < 1"
  using pi_ge_two by simp

lemma pi_ge_fifth: "1 \<le> pi * 5"
  using pi_ge_two by simp

lemma pi_not_less_fifth: "\<not> pi * 5 < 1"
  using pi_ge_two by simp

lemma two_sqrt_less_iff: "0 \<le> q \<Longrightarrow> (2 * sqrt v < q) = (4 * v < q\<^sup>2)"
proof -
  assume q: "0 \<le> q"
  have "2 * sqrt v = sqrt (4 * v)"
    by (simp add: real_sqrt_mult)
  moreover have "q = sqrt (q\<^sup>2)"
    using q by simp
  ultimately have "(2 * sqrt v < q) = (sqrt (4 * v) < sqrt (q\<^sup>2))"
    by simp
  then show ?thesis
    by (simp only: real_sqrt_less_iff)
qed

lemma sqrt_less_iff_square: "0 \<le> q \<Longrightarrow> (sqrt v < q) = (v < q\<^sup>2)"
proof -
  assume q: "0 \<le> q"
  have "q = sqrt (q\<^sup>2)"
    using q by simp
  then have "(sqrt v < q) = (sqrt v < sqrt (q\<^sup>2))"
    by simp
  then show ?thesis
    by (simp only: real_sqrt_less_iff)
qed

subsection \<open>The analysis of the human-like path\<close>

lemma human_length: "length humanLikePath = 17"
  by (simp add: humanLikePath_def)

lemma human_timeGaps:
  "timeGaps humanLikePath = [32, 64, 64, 32, 32, 16, 16, 8, 8, 32, 16, 16, 16, 32, 16, 16]"
  by (simp add: timeGaps_def pairs_def humanLikePath_def)

lemma human_deltas:
  "deltas humanLikePath =
     [(9 / 2, 6), (3 / 2, 2), (3 / 2, 2), (3, 4), (3 / 2, 2), (3 / 2, 2), (3 / 4, 1), (3, 4),
      (3 / 4, 1), (3 / 4, 1), (3 / 4, 1), (3 / 2, 2), (3 / 2, 2), (3 / 4, 1), (- (3 / 2), - 2),
      (- (9 / 4), - 3)]"
  by (simp add: deltas_def pairs_def humanLikePath_def)

lemma human_speeds:
  "speeds humanLikePath =
     [15 / 64, 5 / 128, 5 / 128, 5 / 32, 5 / 64, 5 / 32, 5 / 64, 5 / 8, 5 / 32, 5 / 128, 5 / 64,
      5 / 32, 5 / 32, 5 / 128, 5 / 32, 15 / 64]"
  by (simp add: speeds_def mag_def pairs_def humanLikePath_def Let_def real_sqrt_divide)

lemma human_velocities:
  "velocities humanLikePath =
     [\<lparr>vx = 9 / 64, vy = 3 / 16, vt = 32\<rparr>, \<lparr>vx = 3 / 128, vy = 1 / 32, vt = 96\<rparr>, \<lparr>vx = 3 / 128, vy = 1 / 32, vt = 160\<rparr>, \<lparr>vx = 3 / 32, vy = 1 / 8, vt = 192\<rparr>, \<lparr>vx = 3 / 64, vy = 1 / 16, vt = 224\<rparr>, \<lparr>vx = 3 / 32, vy = 1 / 8, vt = 240\<rparr>, \<lparr>vx = 3 / 64, vy = 1 / 16, vt = 256\<rparr>, \<lparr>vx = 3 / 8, vy = 1 / 2, vt = 264\<rparr>, \<lparr>vx = 3 / 32, vy = 1 / 8, vt = 272\<rparr>, \<lparr>vx = 3 / 128, vy = 1 / 32, vt = 304\<rparr>, \<lparr>vx = 3 / 64, vy = 1 / 16, vt = 320\<rparr>, \<lparr>vx = 3 / 32, vy = 1 / 8, vt = 336\<rparr>, \<lparr>vx = 3 / 32, vy = 1 / 8, vt = 352\<rparr>, \<lparr>vx = 3 / 128, vy = 1 / 32, vt = 384\<rparr>, \<lparr>vx = - (3 / 32), vy = - (1 / 8), vt = 400\<rparr>, \<lparr>vx = - (9 / 64), vy = - (3 / 16), vt = 416\<rparr>]"
  by (simp add: velocities_def pairs_def humanLikePath_def Let_def)

lemma human_accelerations:
  "accelerations humanLikePath =
     [\<lparr>ax = - (15 / 8192), ay = - (5 / 2048), atm = 96\<rparr>, \<lparr>ax = 0, ay = 0, atm = 160\<rparr>, \<lparr>ax = 9 / 4096, ay = 3 / 1024, atm = 192\<rparr>, \<lparr>ax = - (3 / 2048), ay = - (1 / 512), atm = 224\<rparr>, \<lparr>ax = 3 / 1024, ay = 1 / 256, atm = 240\<rparr>, \<lparr>ax = - (3 / 1024), ay = - (1 / 256), atm = 256\<rparr>, \<lparr>ax = 21 / 512, ay = 7 / 128, atm = 264\<rparr>, \<lparr>ax = - (9 / 256), ay = - (3 / 64), atm = 272\<rparr>, \<lparr>ax = - (9 / 4096), ay = - (3 / 1024), atm = 304\<rparr>, \<lparr>ax = 3 / 2048, ay = 1 / 512, atm = 320\<rparr>, \<lparr>ax = 3 / 1024, ay = 1 / 256, atm = 336\<rparr>, \<lparr>ax = 0, ay = 0, atm = 352\<rparr>, \<lparr>ax = - (9 / 4096), ay = - (3 / 1024), atm = 384\<rparr>, \<lparr>ax = - (15 / 2048), ay = - (5 / 512), atm = 400\<rparr>, \<lparr>ax = - (3 / 1024), ay = - (1 / 256), atm = 416\<rparr>]"
  by (simp add: accelerations_def human_velocities pairs_def Let_def)

lemma human_jerks:
  "jerks humanLikePath =
     [25 / 524288, 15 / 131072, 25 / 131072, 15 / 32768, 5 / 8192, 75 / 8192, 65 / 4096,
      225 / 131072, 25 / 65536, 5 / 32768, 5 / 16384, 15 / 131072, 35 / 65536, 15 / 32768]"
  by (simp add: jerks_def human_accelerations pairs_def Let_def real_sqrt_divide)

lemma human_speedMagnitudes:
  "speedMagnitudes humanLikePath =
     [15 / 64, 5 / 128, 5 / 128, 5 / 32, 5 / 64, 5 / 32, 5 / 64, 5 / 8, 5 / 32, 5 / 128, 5 / 64,
      5 / 32, 5 / 32, 5 / 128, 5 / 32, 15 / 64]"
  by (simp add: speedMagnitudes_def human_velocities real_sqrt_divide)

lemma human_speedCheck: "speedCheck humanLikePath"
  by (simp add: speedCheck_def human_speeds Let_def slice_def maxList_def minList_def)

lemma human_angleFlags:
  "angleFlags humanLikePath =
     [True, True, True, True, True, True, True, True, True, True, True, True, True, False, True]"
  by (simp add: angleFlags_def triples_def humanLikePath_def mag_def Let_def real_sqrt_divide
        pi_not_less_small)

lemma human_smoothRatio: "smoothRatio humanLikePath = 14 / 15"
  by (simp add: smoothRatio_def smoothCount_def angleCount_def countTrue_def human_angleFlags)

lemma human_curvesCheck: "curvesCheck humanLikePath"
  by (simp add: curvesCheck_def human_smoothRatio)

lemma human_reversals: "reversals humanLikePath = 2"
  by (simp add: reversals_def human_deltas reversalStep_def)

lemma human_reversalRatio: "reversalRatio humanLikePath = 2 / 17"
  by (simp add: reversalRatio_def human_reversals human_length)

lemma human_jitterCheck: "jitterCheck humanLikePath"
  by (simp add: jitterCheck_def human_reversalRatio)

lemma human_duration: "duration humanLikePath = 416"
  by (simp add: duration_def humanLikePath_def)

lemma human_timingCheck: "timingCheck humanLikePath"
  by (simp add: timingCheck_def human_duration pauseRatio_def pauseCount_def
        longPauseCount_def count_def human_timeGaps human_length)

lemma human_continuousCheck: "continuousCheck humanLikePath"
  by (simp add: continuousCheck_def continuousRatio_def smallGaps_def count_def
        human_timeGaps pointsPerSecond_def human_duration human_length jsdiv_def js_gt_def)

lemma human_straightRatio: "straightRatio humanLikePath = 0"
  by (simp add: straightRatio_def totalSegments_def straightSegments_def segmentStarts_def
        segmentSize_def human_length)

lemma human_jerkSpikes: "jerkSpikes humanLikePath = 1"
  by (simp add: jerkSpikes_def human_jerks Let_def count_def two_sqrt_less_iff power2_eq_square)

lemma human_jerkSpikeRatio: "jerkSpikeRatio humanLikePath = 1 / 14"
  by (simp add: jerkSpikeRatio_def human_jerkSpikes human_jerks)

lemma human_accelSignChanges: "accelSignChanges humanLikePath = 16"
  by (simp add: accelSignChanges_def human_accelerations accelSignStep_def Let_def)

lemma human_accelSignChangeRate: "accelSignChangeRate humanLikePath = 16 / 15"
  by (simp add: accelSignChangeRate_def human_accelSignChanges human_accelerations)

lemma human_timingVariance: "timingVariance humanLikePath = 276"
  by (simp add: timingVariance_def human_timeGaps Let_def)

lemma human_timingCV: "timingCV humanLikePath = Fin (sqrt 276 / 26)"
  by (simp add: timingCV_def human_timingVariance human_timeGaps jsdiv_def)

lemma human_not_tooRegular: "\<not> isTimingTooRegular humanLikePath"
proof -
  have "(16::real)\<^sup>2 \<le> 276"
    by simp
  then have "16 \<le> sqrt 276"
    by (rule real_le_rsqrt)
  then have "\<not> sqrt 276 / 26 < 0.12"
    by simp
  then show ?thesis
    by (simp add: isTimingTooRegular_def human_timingCV)
qed

lemma human_curvatures:
  "curvatures humanLikePath = [0, 0, 0, 0, 0, 0, 0, 0, 0, 0, 0, 0, 0, pi, 0]"
  by (simp add: curvatures_def triples_def humanLikePath_def atan2_def Let_def)

lemma human_curvatureChangeRate: "curvatureChangeRate humanLikePath = 2 / 15"
  by (simp add: curvatureChangeRate_def suddenCurvatureChanges_def count_def human_curvatures
        pairs_def pi_greater_small pi_not_less_small)

lemma human_velocityPeaks: "velocityPeaks humanLikePath = 1"
  by (simp add: velocityPeaks_def human_speedMagnitudes count_def Let_def)

lemma human_velocityPeaksPerSecond: "velocityPeaksPerSecond humanLikePath = Fin (125 / 52)"
  by (simp add: velocityPeaksPerSecond_def human_velocityPeaks human_duration jsdiv_def)

lemma human_pathEfficiency: "pathEfficiency humanLikePath = 13 / 18"
  by (simp add: pathEfficiency_def directDistance_def totalPathLength_def pairs_def
        humanLikePath_def Let_def real_sqrt_divide power2_eq_square)

lemma human_residuals:
  "residuals humanLikePath =
     [(3 / 8, 1 / 2), (- (3 / 4), - 1), (3 / 4, 1), (9 / 16, 3 / 4), (0, 0),
      (- (15 / 16), - (5 / 4)), (9 / 8, 3 / 2), (9 / 16, 3 / 4), (- (3 / 16), - (1 / 4)),
      (- (9 / 16), - (3 / 4)), (0, 0), (9 / 8, 3 / 2), (33 / 16, 11 / 4)]"
  by (simp add: residuals_def humanLikePath_def Let_def)

lemma human_noiseAutocorr: "noiseAutocorr humanLikePath = 2020 / 20683"
  by (simp add: noiseAutocorr_def human_residuals pairs_def Let_def power2_eq_square)

lemma human_xyNoiseCorr: "xyNoiseCorr humanLikePath = 1"
  by (simp add: xyNoiseCorr_def human_residuals Let_def real_sqrt_divide power2_eq_square)

lemma human_velocityReversals: "velocityReversals humanLikePath = 1"
  by (simp add: velocityReversals_def human_velocities velReversalStep_def atan2_def Let_def)

lemma human_reversalRate: "reversalRate humanLikePath = 1 / 16"
  by (simp add: reversalRate_def human_velocityReversals human_velocities)

lemma human_linearAccelRatio: "linearAccelRatio humanLikePath = 0"
  by (simp add: linearAccelRatio_def linearAccelFlags_def segmentStarts_def
        accelSegmentSize_def human_accelerations)

lemma human_movementStarts:
  "movementStarts (speedMagnitudes humanLikePath) = [0, 7, 16]"
  by (simp add: movementStarts_def human_speedMagnitudes)

lemma human_symmetryRatio: "symmetryRatio humanLikePath = 0"
  by (simp add: symmetryRatio_def movementFlags_def human_movementStarts pairs_def Let_def)

lemma human_perfectStartRatio: "perfectStartRatio humanLikePath = 0"
  by (simp add: perfectStartRatio_def perfectStartFlags_def humanLikePath_def Let_def)

lemma human_smoothStartRatio: "smoothStartRatio humanLikePath = 0"
  by (simp add: smoothStartRatio_def smoothStartFlags_def humanLikePath_def Let_def)

lemma human_fidgetFlags: "fidgetFlags humanLikePath = [True, True]"
  unfolding fidgetFlags_def human_speedMagnitudes
  by (simp add: slice_def Let_def humanLikePath_def real_sqrt_divide power2_eq_square)

lemma human_fidgetRatio: "fidgetRatio humanLikePath = 1"
  by (simp add: fidgetRatio_def human_fidgetFlags countTrue_def)

lemma human_jerkAutocorr: "jerkAutocorr humanLikePath = 0"
  by (simp add: jerkAutocorr_def human_jerks)

lemma human_directionChanges:
  "directionChanges humanLikePath = [0, 0, 0, 0, 0, 0, 0, 0, 0, 0, 0, 0, pi, 0]"
  by (simp add: directionChanges_def human_curvatures)

lemma human_directionEntropy:
  "directionEntropy humanLikePath = - (13 / 14 * log 2 (13 / 14) + 1 / 14 * log 2 (1 / 14))"
  by (simp add: directionEntropy_def human_directionChanges count_def Let_def
        pi_not_less_tiny pi_ge_fifth pi_not_less_fifth)

lemma human_directionEntropy_less: "directionEntropy humanLikePath < 1.4"
proof -
  have "log 2 (1 / 2) \<le> log 2 (13 / 14)"
    by (subst log_le_cancel_iff) simp_all
  moreover have "log 2 (1 / 2) = - 1"
    by (simp add: log_divide)
  ultimately have a: "- 1 \<le> log 2 (13 / 14)"
    by simp
  have "log 2 (1 / 16) \<le> log 2 (1 / 14)"
    by (subst log_le_cancel_iff) simp_all
  moreover have "log 2 (1 / 16) = - 4"
  proof -
    have "log 2 (2 powr 4) = 4"
      by (rule log_powr_cancel) simp_all
    moreover have "(2::real) powr 4 = 16"
      by simp
    ultimately have "log 2 16 = (4::real)"
      by simp
    then show ?thesis
      by (simp add: log_divide)
  qed
  ultimately have b: "- 4 \<le> log 2 (1 / 14)"
    by simp
  from a b have "- (13 / 14 * log 2 (13 / 14) + 1 / 14 * log 2 (1 / 14)) \<le> 17 / 14"
    by simp
  then show ?thesis
    by (simp add: human_directionEntropy)
qed

lemma human_directionEntropy_normal: "directionEntropy humanLikePath * 5 < 7"
  using human_directionEntropy_less by simp

lemma human_bezierSignals:
  "bezierSignals humanLikePath =
     [False, False, False, False, False, False, True, False, True, False, False, False, False,
      False, False, False, False, False]"
  by (simp add: bezierSignals_def human_jerkSpikeRatio human_accelSignChangeRate
        human_curvatureChangeRate human_velocityPeaksPerSecond human_pathEfficiency
        human_noiseAutocorr human_directionEntropy_normal human_reversalRate human_jerkAutocorr
        human_linearAccelRatio human_symmetryRatio human_xyNoiseCorr human_perfectStartRatio
        human_smoothStartRatio human_fidgetRatio human_reversalRatio human_smoothRatio)

lemma human_bezierSignalCount: "bezierSignalCount humanLikePath = 2"
  by (simp add: bezierSignalCount_def countTrue_def human_bezierSignals)

lemma human_notRoboticCheck: "notRoboticCheck humanLikePath"
  by (simp add: notRoboticCheck_def human_straightRatio isBezierLike_def
        human_bezierSignalCount human_not_tooRegular)

lemma human_computedChecks:
  "computedChecks humanLikePath =
     \<lparr>speed = True, curves = True, jitter = True, timing = True, continuous = True,
      notRobotic = True\<rparr>"
  by (simp add: computedChecks_def initialChecks_def human_speedCheck human_curvesCheck
        human_jitterCheck human_timingCheck human_continuousCheck human_notRoboticCheck)

lemma human_checks:
  "checks (analyzeMovement humanLikePath opts) =
     \<lparr>speed = True, curves = True, jitter = True, timing = True, continuous = True,
      notRobotic = True\<rparr>"
  by (simp add: checks_long human_length human_computedChecks)

lemma human_verified:
  "verified (analyzeMovement humanLikePath
               \<lparr>optTargetHitsRequired = Some (Fin 5), optTargetHits = Some (Fin 6)\<rparr>)"
  by (simp add: analyzeMovement_long human_length human_computedChecks checkValues_def
        targetCheck_def targetHits_def targetHitsRequired_def js_or_def)

lemma human_analysis:
  "analyzeMovement humanLikePath
     \<lparr>optTargetHitsRequired = Some (Fin 5), optTargetHits = Some (Fin 6)\<rparr> =
     \<lparr>verified = True, reason = None,
      checks = \<lparr>speed = True, curves = True, jitter = True, timing = True,
                 continuous = True, notRobotic = True\<rparr>,
      checksPassed = 7, totalChecks = Some 7, aiDetected = False, durationMs = Some 416,
      pointCount = Some 17, detectionVersion = Some DETECTION_VERSION,
      metrics = Some (metricsOf humanLikePath)\<rparr>"
  by (simp add: analyzeMovement_long human_length human_computedChecks checkValues_def
        countTrue_def aiFailures_def human_duration targetCheck_def targetHits_def
        targetHitsRequired_def js_or_def)

section \<open>Properties of the analysis\<close>

text \<open>
  C1, as the code has it. For fewer than 15 samples the result has \<open>verified = False\<close>,
  \<open>checksPassed = 0\<close> and the reason \<open>insufficient_data\<close>; the checks speed, curves,
  jitter, timing and continuous are false, and \<open>notRobotic\<close> keeps its initial value,
  which is true.
\<close>

theorem insufficient_data_result:
  assumes "length points < 15"
  shows "(let r = analyzeMovement points opts in
          verified r = False \<and> checksPassed r = 0 \<and> reason r = Some ''insufficient_data'' \<and>
          \<not> speed (checks r) \<and> \<not> curves (checks r) \<and> \<not> jitter (checks r) \<and>
          \<not> timing (checks r) \<and> \<not> continuous (checks r) \<and> notRobotic (checks r))"
  using assms by (simp add: analyzeMovement_short initialChecks_def)

theorem insufficient_data_result_witness:
  "length [\<lparr>px = 1, py = 2, pt = 3\<rparr>, \<lparr>px = 4, py = 6, pt = 20\<rparr>] < 15 \<and>
   (let r = analyzeMovement [\<lparr>px = 1, py = 2, pt = 3\<rparr>, \<lparr>px = 4, py = 6, pt = 20\<rparr>]
              \<lparr>optTargetHitsRequired = Some (Fin 5), optTargetHits = Some (Fin 7)\<rparr> in
    verified r = False \<and> checksPassed r = 0 \<and> reason r = Some ''insufficient_data'' \<and>
    \<not> speed (checks r) \<and> \<not> curves (checks r) \<and> \<not> jitter (checks r) \<and>
    \<not> timing (checks r) \<and> \<not> continuous (checks r) \<and> notRobotic (checks r))"
  using insufficient_data_result
          [of "[\<lparr>px = 1, py = 2, pt = 3\<rparr>, \<lparr>px = 4, py = 6, pt = 20\<rparr>]"
              "\<lparr>optTargetHitsRequired = Some (Fin 5), optTargetHits = Some (Fin 7)\<rparr>"]
  by simp

text \<open>
  C1 as stated fails: on the empty sequence the six primary checks are not all false.
\<close>

theorem insufficient_data_not_all_false:
  "length ([] :: point list) < 15 \<and>
   \<not> (let c = checks (analyzeMovement []
                       \<lparr>optTargetHitsRequired = None, optTargetHits = None\<rparr>) in
      \<not> speed c \<and> \<not> curves c \<and> \<not> jitter c \<and> \<not> timing c \<and> \<not> continuous c \<and>
      \<not> notRobotic c)"
  by (simp add: analyzeMovement_short initialChecks_def)

text \<open>
  C2. For every result of \<open>analyzeMovement\<close>, \<open>checksPassed\<close> is between 0 and 7, and a
  verified result has \<open>checksPassed = 7\<close> and \<open>aiDetected = False\<close>.
\<close>

theorem checksPassed_range:
  "(let r = analyzeMovement points opts in
     0 \<le> checksPassed r \<and> checksPassed r \<le> 7 \<and>
     (verified r \<longrightarrow> checksPassed r = 7 \<and> \<not> aiDetected r))"
proof (cases "length points < 15")
  case True
  then show ?thesis
    by (simp add: analyzeMovement_short)
next
  case False
  then have long: "15 \<le> length points"
    by simp
  let ?c = "computedChecks points"
  have le: "countTrue (checkValues ?c) + (if targetCheck opts then 1 else 0) \<le> 7"
    using countTrue_checkValues_le [of ?c] by simp
  have all: "countTrue (checkValues ?c) + (if targetCheck opts then 1 else 0) = 7 \<and>
             \<not> 2 \<le> aiFailures ?c"
    if "list_all (\<lambda>b. b) (checkValues ?c)" and "targetCheck opts"
  proof -
    have "countTrue (checkValues ?c) = 6"
      using countTrue_all_true [OF that(1)] by (simp add: length_checkValues)
    moreover have "aiFailures ?c = 0"
      using that(1) by (simp add: all_checkValues aiFailures_zero)
    ultimately show ?thesis
      using that(2) by simp
  qed
  show ?thesis
    using le all by (simp add: analyzeMovement_long [OF long])
qed

theorem checksPassed_range_witness:
  "(let r = analyzeMovement humanLikePath
              \<lparr>optTargetHitsRequired = Some (Fin 5), optTargetHits = Some (Fin 6)\<rparr> in
     verified r \<and> 0 \<le> checksPassed r \<and> checksPassed r \<le> 7 \<and> checksPassed r = 7 \<and>
     \<not> aiDetected r)"
  using checksPassed_range
          [of humanLikePath
              "\<lparr>optTargetHitsRequired = Some (Fin 5), optTargetHits = Some (Fin 6)\<rparr>"]
        human_verified
  by (simp add: Let_def)

text \<open>
  C5. For at least 15 samples, \<open>aiDetected\<close> holds iff at least two of the checks curves,
  continuous, notRobotic and timing are false, and \<open>verified\<close> holds iff the six primary
  checks are true and \<open>targetHits\<close> is at least \<open>targetHitsRequired\<close> (the values the
  function computes from its options).
\<close>

theorem aiDetected_verified_iff:
  assumes "15 \<le> length points"
  shows "(let r = analyzeMovement points opts; c = checks r in
          (aiDetected r \<longleftrightarrow>
             2 \<le> length (filter (\<lambda>b. \<not> b) [curves c, continuous c, notRobotic c, timing c])) \<and>
          (verified r \<longleftrightarrow>
             speed c \<and> curves c \<and> jitter c \<and> timing c \<and> continuous c \<and> notRobotic c \<and>
             js_ge (targetHits opts) (targetHitsRequired opts)))"
proof -
  have "aiFailures c = length (filter (\<lambda>b. \<not> b) [curves c, continuous c, notRobotic c, timing c])"
    for c
    by (simp add: aiFailures_def countTrue_def)
  then show ?thesis
    using assms by (simp add: analyzeMovement_long all_checkValues targetCheck_def)
qed

theorem aiDetected_verified_iff_witness:
  "(let opts = \<lparr>optTargetHitsRequired = Some (Fin 5), optTargetHits = Some (Fin 6)\<rparr>;
        r = analyzeMovement humanLikePath opts;
        c = checks r in
     15 \<le> length humanLikePath \<and>
     length (filter (\<lambda>b. \<not> b) [curves c, continuous c, notRobotic c, timing c]) = 0 \<and>
     \<not> aiDetected r \<and>
     speed c \<and> curves c \<and> jitter c \<and> timing c \<and> continuous c \<and> notRobotic c \<and>
     js_ge (targetHits opts) (targetHitsRequired opts) \<and> verified r) \<and>
   (let opts = \<lparr>optTargetHitsRequired = Some (Fin 5), optTargetHits = Some (Fin 6)\<rparr>;
        r = analyzeMovement (replicate 20 \<lparr>px = 100, py = 50, pt = 1000\<rparr>) opts;
        c = checks r in
     15 \<le> length (replicate 20 \<lparr>px = 100, py = 50, pt = 1000\<rparr>) \<and>
     \<not> curves c \<and> \<not> timing c \<and>
     2 \<le> length (filter (\<lambda>b. \<not> b) [curves c, continuous c, notRobotic c, timing c]) \<and>
     aiDetected r \<and> \<not> verified r)"
proof -
  let ?opts = "\<lparr>optTargetHitsRequired = Some (Fin 5), optTargetHits = Some (Fin 6)\<rparr>"
  let ?same = "replicate 20 \<lparr>px = 100, py = 50, pt = 1000\<rparr>"
  have a: "15 \<le> length humanLikePath"
    by (simp add: human_length)
  have b: "15 \<le> length ?same"
    by simp
  have t: "js_ge (targetHits ?opts) (targetHitsRequired ?opts)"
    by (simp add: targetHits_def targetHitsRequired_def js_or_def)
  have c: "\<not> curves (checks (analyzeMovement ?same ?opts))"
          "\<not> timing (checks (analyzeMovement ?same ?opts))"
    by (simp_all add: checks_long computedChecks_simps curvesCheck_replicate
          timingCheck_replicate)
  then have two: "2 \<le> length (filter (\<lambda>b. \<not> b)
                    [curves (checks (analyzeMovement ?same ?opts)),
                     continuous (checks (analyzeMovement ?same ?opts)),
                     notRobotic (checks (analyzeMovement ?same ?opts)),
                     timing (checks (analyzeMovement ?same ?opts))])"
    by simp
  have first:
    "length (filter (\<lambda>b. \<not> b)
       [curves (checks (analyzeMovement humanLikePath ?opts)),
        continuous (checks (analyzeMovement humanLikePath ?opts)),
        notRobotic (checks (analyzeMovement humanLikePath ?opts)),
        timing (checks (analyzeMovement humanLikePath ?opts))]) = 0"
    by (simp add: human_checks)
  have h: "\<not> aiDetected (analyzeMovement humanLikePath ?opts)"
          "verified (analyzeMovement humanLikePath ?opts)"
    using aiDetected_verified_iff [OF a, of ?opts] first t
    by (simp_all add: Let_def human_checks)
  have s: "aiDetected (analyzeMovement ?same ?opts)"
          "\<not> verified (analyzeMovement ?same ?opts)"
    using aiDetected_verified_iff [OF b, of ?opts] two c
    by (simp_all only: Let_def simp_thms)
  show ?thesis
    unfolding Let_def
    using a b c two first h s t by (simp add: human_checks)
qed

text \<open>
  C6. For at least 15 samples the check \<open>notRobotic\<close> holds iff fewer than half of the
  evaluated windows are too straight (none is when no window is evaluated), fewer than
  3 of the 18 signals hold, and the coefficient of variation of the time gaps is at
  least 0.12.
\<close>

theorem notRobotic_check_iff:
  assumes "15 \<le> length points"
  shows "length (bezierSignals points) = 18 \<and>
         (notRobotic (checks (analyzeMovement points opts)) \<longleftrightarrow>
            (totalSegments points = 0 \<or>
             2 * tooStraightSegments points < totalSegments points) \<and>
            length (filter (\<lambda>b. b) (bezierSignals points)) < 3 \<and>
            js_ge (coefficientOfVariation (timeGaps points)) (Fin 0.12))"
proof -
  have "notRobotic (checks (analyzeMovement points opts)) = notRoboticCheck points"
    using assms by (simp add: checks_long computedChecks_simps)
  moreover have "\<not> isBezierLike points \<longleftrightarrow> length (filter (\<lambda>b. b) (bezierSignals points)) < 3"
    by (simp add: isBezierLike_def bezierSignalCount_def countTrue_def not_le)
  ultimately show ?thesis
    using not_tooRegular_iff [OF assms] straightRatio_lt_half [of points]
    by (simp only: notRoboticCheck_def length_bezierSignals simp_thms)
qed

theorem notRobotic_check_iff_witness:
  "(let opts = \<lparr>optTargetHitsRequired = Some (Fin 5), optTargetHits = Some (Fin 6)\<rparr> in
     15 \<le> length humanLikePath \<and>
     length (bezierSignals humanLikePath) = 18 \<and>
     notRobotic (checks (analyzeMovement humanLikePath opts)) \<and>
     totalSegments humanLikePath = 0 \<and>
     length (filter (\<lambda>b. b) (bezierSignals humanLikePath)) = 2 \<and>
     js_ge (coefficientOfVariation (timeGaps humanLikePath)) (Fin 0.12))"
proof -
  let ?opts = "\<lparr>optTargetHitsRequired = Some (Fin 5), optTargetHits = Some (Fin 6)\<rparr>"
  have a: "15 \<le> length humanLikePath"
    by (simp add: human_length)
  have "totalSegments humanLikePath = 0"
    by (simp add: totalSegments_def straightSegments_def segmentStarts_def segmentSize_def
          human_length)
  moreover have "length (filter (\<lambda>b. b) (bezierSignals humanLikePath)) = 2"
    by (simp add: human_bezierSignals)
  ultimately show ?thesis
    using notRobotic_check_iff [OF a, of ?opts] a human_checks [of ?opts]
    by (simp add: Let_def)
qed

text \<open>
  C7, as the code has it. For at least 15 samples the timing check holds iff the time
  from the first sample to the last exceeds 300, the number of steps whose gap exceeds
  50 divided by the number of samples is below 0.3, and the number of steps whose gap
  exceeds 150 is below 0.1 times the number of samples.
\<close>

theorem timing_check_iff:
  assumes "15 \<le> length points"
  shows "timing (checks (analyzeMovement points opts)) \<longleftrightarrow>
           pt (last points) - pt (hd points) > 300 \<and>
           real (card {i. i + 1 < length points \<and> pt (points ! (i + 1)) - pt (points ! i) > 50})
             / real (length points) < 0.3 \<and>
           real (card {i. i + 1 < length points \<and> pt (points ! (i + 1)) - pt (points ! i) > 150})
             < 0.1 * real (length points)"
  using assms
  by (simp add: checks_long computedChecks_simps timingCheck_def duration_def pauseRatio_def
        pauseCount_def longPauseCount_def count_timeGaps mult.commute)

theorem timing_check_iff_witness:
  "(let points = map (\<lambda>t. \<lparr>px = 0, py = 0, pt = t\<rparr>)
                   [0, 60, 120, 180, 240, 300, 310, 320, 330, 340, 350, 360, 370, 380, 390,
                    400, 410] in
     15 \<le> length points \<and>
     timing (checks (analyzeMovement points
                       \<lparr>optTargetHitsRequired = None, optTargetHits = None\<rparr>)) \<and>
     pt (last points) - pt (hd points) > 300 \<and>
     real (card {i. i + 1 < length points \<and> pt (points ! (i + 1)) - pt (points ! i) > 50})
       / real (length points) < 0.3 \<and>
     real (card {i. i + 1 < length points \<and> pt (points ! (i + 1)) - pt (points ! i) > 150})
       < 0.1 * real (length points))"
proof -
  let ?points = "map (\<lambda>t. \<lparr>px = 0, py = 0, pt = t\<rparr>)
                   [0, 60, 120, 180, 240, 300, 310, 320, 330, 340, 350, 360, 370, 380, 390,
                    400, 410 :: real]"
  let ?opts = "\<lparr>optTargetHitsRequired = None, optTargetHits = None\<rparr>"
  have len: "15 \<le> length ?points"
    by simp
  have "timing (checks (analyzeMovement ?points ?opts))"
    by (simp add: analyzeMovement_long computedChecks_simps timingCheck_def duration_def
          pauseRatio_def pauseCount_def longPauseCount_def count_def timeGaps_def pairs_def)
  with timing_check_iff [OF len, of ?opts] len show ?thesis
    unfolding Let_def by blast
qed

text \<open>
  C7 as stated fails: a count of steps is divided by the number of samples, not by the
  number of steps. On 17 samples with five gaps of 60 and eleven gaps of 10 the timing
  check holds, while the fraction of the 16 steps whose gap exceeds 50 is 5/16, which is
  not below 0.3.
\<close>

theorem timing_check_not_fraction_of_steps:
  "(let points = map (\<lambda>t. \<lparr>px = 0, py = 0, pt = t\<rparr>)
                   [0, 60, 120, 180, 240, 300, 310, 320, 330, 340, 350, 360, 370, 380, 390,
                    400, 410] in
     15 \<le> length points \<and>
     timing (checks (analyzeMovement points
                       \<lparr>optTargetHitsRequired = None, optTargetHits = None\<rparr>)) \<and>
     length (timeGaps points) = 16 \<and>
     length (filter (\<lambda>g. g > 50) (timeGaps points)) = 5 \<and>
     length (filter (\<lambda>g. g > 150) (timeGaps points)) = 0 \<and>
     pt (last points) - pt (hd points) > 300 \<and>
     \<not> (real (length (filter (\<lambda>g. g > 50) (timeGaps points)))
          / real (length (timeGaps points)) < 0.3))"
  by (simp add: analyzeMovement_long computedChecks_simps timingCheck_def duration_def
        pauseRatio_def pauseCount_def longPauseCount_def count_def timeGaps_def pairs_def)

text \<open>
  C9. On 20 identical samples the result has \<open>verified = False\<close>, and the time span is 0:
  the two unguarded quotients by \<open>duration / 1000\<close> are quotients by zero.
  \<open>pointsPerSecond\<close> is \<open>20 / 0\<close>, which is \<open>Infinity\<close>, and \<open>velocityPeaksPerSecond\<close> is
  \<open>0 / 0\<close>, which is \<open>NaN\<close>.
\<close>

theorem identical_points_divide_by_zero:
  "(let r = analyzeMovement (replicate 20 p) opts in
     verified r = False \<and>
     duration (replicate 20 p) / 1000 = 0 \<and>
     map_option m_pointsPerSecond (metrics r) = Some PInf \<and>
     map_option m_velocityPeaksPerSecond (metrics r) = Some NaN)"
proof -
  have v: "\<not> verified (analyzeMovement (replicate 20 p) opts)"
    by (simp add: analyzeMovement_long all_checkValues computedChecks_simps
          timingCheck_replicate)
  have d: "duration (replicate 20 p) = 0"
    by (simp add: duration_replicate)
  have pps: "pointsPerSecond (replicate 20 p) = PInf"
    by (simp add: pointsPerSecond_def d jsdiv_def)
  have vps: "velocityPeaksPerSecond (replicate 20 p) = NaN"
    by (simp add: velocityPeaksPerSecond_def d velocityPeaks_replicate jsdiv_def)
  show ?thesis
    using v by (simp add: d analyzeMovement_long metricsOf_def pps vps)
qed

text \<open>
  C10. When the option \<open>targetHitsRequired\<close> is falsy (absent, 0 or NaN), the required
  number of hits is 5: the target check is \<open>targetHits \<ge> 5\<close>, the pass count gains the
  seventh check only then, and a verified result has at least 5 hits.
\<close>

theorem targetHitsRequired_falsy_default:
  assumes "\<not> truthy (optTargetHitsRequired opts)"
  shows "targetHitsRequired opts = Fin 5 \<and>
         targetCheck opts = js_ge (targetHits opts) (Fin 5) \<and>
         (15 \<le> length points \<longrightarrow>
            checksPassed (analyzeMovement points opts) =
              countTrue (checkValues (checks (analyzeMovement points opts)))
                + (if js_ge (targetHits opts) (Fin 5) then 1 else 0)) \<and>
         (verified (analyzeMovement points opts) \<longrightarrow> js_ge (targetHits opts) (Fin 5))"
proof -
  have req: "targetHitsRequired opts = Fin 5"
    using assms by (simp add: targetHitsRequired_def js_or_def)
  have tc: "targetCheck opts = js_ge (targetHits opts) (Fin 5)"
    unfolding targetCheck_def req ..
  show ?thesis
    using req verified_targetCheck [of points opts] checksPassed_long [of points opts]
    unfolding tc by blast
qed

theorem targetHitsRequired_falsy_default_witness:
  "\<not> truthy (optTargetHitsRequired
               \<lparr>optTargetHitsRequired = Some (Fin 0), optTargetHits = Some (Fin 3)\<rparr>) \<and>
   targetHitsRequired \<lparr>optTargetHitsRequired = Some (Fin 0), optTargetHits = Some (Fin 3)\<rparr>
     = Fin 5 \<and>
   \<not> targetCheck \<lparr>optTargetHitsRequired = Some (Fin 0), optTargetHits = Some (Fin 3)\<rparr> \<and>
   \<not> verified (analyzeMovement []
                  \<lparr>optTargetHitsRequired = Some (Fin 0), optTargetHits = Some (Fin 3)\<rparr>)"
  using targetHitsRequired_falsy_default
          [of "\<lparr>optTargetHitsRequired = Some (Fin 0), optTargetHits = Some (Fin 3)\<rparr>" "[]"]
  by (simp add: targetHits_def js_or_def)

section \<open>Properties of the signature\<close>


text \<open>
  C3 fails on the code: when the byte length of the supplied signature differs from the
  length of the recomputed digest, \<open>verifySignature\<close> does not return false; the
  comparison raises a \<open>RangeError\<close>.
\<close>

theorem verifySignature_length_mismatch_throws:
  assumes "length sg \<noteq> length (hmacSha256Hex rt secretKey pl)"
  shows "verifySignature rt secretKey sg pl = Inl RangeError"
  using assms by (simp add: verifySignature_def timingSafeEqual_def Let_def)

theorem verifySignature_length_mismatch_throws_witness:
  "length ''abc'' \<noteq>
     length (hmacSha256Hex
               \<lparr>hmacSha256Hex = (\<lambda>k d. replicate 64 CHR ''0''), sha256Hex = (\<lambda>d. d),
                stringifyPoints = (\<lambda>ps. []), stringifyPayload = (\<lambda>h r ts n. h @ r)\<rparr>
               ''key'' ''payload'') \<and>
   verifySignature
     \<lparr>hmacSha256Hex = (\<lambda>k d. replicate 64 CHR ''0''), sha256Hex = (\<lambda>d. d),
      stringifyPoints = (\<lambda>ps. []), stringifyPayload = (\<lambda>h r ts n. h @ r)\<rparr>
     ''key'' ''abc'' ''payload'' = Inl RangeError"
  using verifySignature_length_mismatch_throws
          [of "''abc''"
              "\<lparr>hmacSha256Hex = (\<lambda>k d. replicate 64 CHR ''0''), sha256Hex = (\<lambda>d. d),
                stringifyPoints = (\<lambda>ps. []), stringifyPayload = (\<lambda>h r ts n. h @ r)\<rparr>"
              "''key''" "''payload''"]
  by simp







section \<open>Properties of the session registry\<close>

lemma lookup_not_falsy:
  "sid \<noteq> [] \<Longrightarrow> sg \<noteq> [] \<Longrightarrow>
   \<not> (falsyString (reqSessionId \<lparr>reqSessionId = Some sid, reqSignature = Some sg\<rparr>) \<or>
      falsyString (reqSignature \<lparr>reqSessionId = Some sid, reqSignature = Some sg\<rparr>))"
  by (simp add: falsyString_def)

lemma lookup_not_found:
  "sid \<noteq> [] \<Longrightarrow> sg \<noteq> [] \<Longrightarrow> sessions sid = None \<Longrightarrow>
   apiVerifySignature now \<lparr>reqSessionId = Some sid, reqSignature = Some sg\<rparr> sessions =
     (LookupOk \<lparr>valid = False, lookupReason = Some ''session_not_found'',
                lookupRecordId = None, lookupTimestamp = None\<rparr>, sessions)"
  by (simp add: apiVerifySignature_def falsyString_def)

lemma lookup_expired:
  "sid \<noteq> [] \<Longrightarrow> sg \<noteq> [] \<Longrightarrow> sessions sid = Some s \<Longrightarrow> expiresAt s < now \<Longrightarrow>
   apiVerifySignature now \<lparr>reqSessionId = Some sid, reqSignature = Some sg\<rparr> sessions =
     (LookupOk \<lparr>valid = False, lookupReason = Some ''session_expired'',
                lookupRecordId = None, lookupTimestamp = None\<rparr>, sessions(sid := None))"
  by (simp add: apiVerifySignature_def falsyString_def)

lemma lookup_live:
  "sid \<noteq> [] \<Longrightarrow> sg \<noteq> [] \<Longrightarrow> sessions sid = Some s \<Longrightarrow> \<not> expiresAt s < now \<Longrightarrow>
   apiVerifySignature now \<lparr>reqSessionId = Some sid, reqSignature = Some sg\<rparr> sessions =
     (LookupOk \<lparr>valid = (sessSignature s = sg), lookupReason = None,
                lookupRecordId = (if sessSignature s = sg then sessRecordId s else None),
                lookupTimestamp = (if sessSignature s = sg then Some (sessTimestamp s) else None)\<rparr>,
      sessions)"
  by (simp add: apiVerifySignature_def falsyString_def Let_def)

lemma issueSession_stored:
  assumes "issueSession rt secretKey tSign tStore tSweep points recordId passed sessions
             = (a, sid, sessions')"
    and "tSweep \<le> tStore + 3600000"
  shows "sid = take 16 (signature a) \<and>
         timestamp a = tSign \<and>
         sessions' sid =
           Some \<lparr>sessSignature = signature a, sessTimestamp = tSign,
                 sessRecordId = recordId, expiresAt = tStore + 3600000\<rparr>"
  using assms
  by (auto simp add: issueSession_def generateSignature_def sweep_def Let_def)

lemma apiVerify_issued:
  assumes "apiVerify rt secretKey tSign tStore tSweep req before = (VerifiedOk body, sessions')"
  shows "\<exists>points passed a.
           issueSession rt secretKey tSign tStore tSweep points (reqRecordId req) passed before
             = (a, vSessionId body, sessions') \<and>
           signature a = vSignature body"
proof (cases "reqPoints req")
  case None
  with assms show ?thesis
    by (simp add: apiVerify_def)
next
  case (Some points)
  let ?res = "analyzeMovement points
                \<lparr>optTargetHitsRequired = Some (Fin 5),
                 optTargetHits = Some (js_or (reqTargetHits req) (Fin 0))\<rparr>"
  obtain a sid s where
    issue: "issueSession rt secretKey tSign tStore tSweep points (reqRecordId req)
              (checksPassed ?res) before = (a, sid, s)"
    by (metis prod_cases3)
  from assms Some have "verified ?res"
    by (auto simp add: apiVerify_def Let_def split: if_splits)
  with assms Some issue have "vSessionId body = sid" "vSignature body = signature a" "sessions' = s"
    by (auto simp add: apiVerify_def Let_def)
  with issue have
    "issueSession rt secretKey tSign tStore tSweep points (reqRecordId req)
       (checksPassed ?res) before = (a, vSessionId body, sessions') \<and>
     signature a = vSignature body"
    by simp
  then show ?thesis
    by (intro exI)
qed

text \<open>
  C8. For every registry and every request that carries a session id and a signature
  (neither missing nor empty; otherwise the answer is the status 400): the lookup
  answers \<open>session_not_found\<close> when the registry has no entry for the id; it answers
  \<open>session_expired\<close> and removes the entry when the entry's \<open>expiresAt\<close> is before the
  clock; otherwise \<open>valid\<close> says whether the stored signature is the supplied one, with
  the stored record id when it is, and the registry is unchanged. After an issuance
  (the verified branch of \<^verbatim>\<open>POST /api/verify\<close>, and the handler as a whole when it
  answers verified), while the session has not expired, the lookup of the issued session
  id with the issued signature is valid and returns the record id of the request.
\<close>

theorem session_lookup:
  assumes "sid \<noteq> []" and "sg \<noteq> []"
  shows "(sessions sid = None \<longrightarrow>
            apiVerifySignature now \<lparr>reqSessionId = Some sid, reqSignature = Some sg\<rparr> sessions =
              (LookupOk \<lparr>valid = False, lookupReason = Some ''session_not_found'',
                         lookupRecordId = None, lookupTimestamp = None\<rparr>, sessions)) \<and>
         (\<forall>s. sessions sid = Some s \<longrightarrow> expiresAt s < now \<longrightarrow>
            apiVerifySignature now \<lparr>reqSessionId = Some sid, reqSignature = Some sg\<rparr> sessions =
              (LookupOk \<lparr>valid = False, lookupReason = Some ''session_expired'',
                         lookupRecordId = None, lookupTimestamp = None\<rparr>,
               sessions(sid := None))) \<and>
         (\<forall>s. sessions sid = Some s \<longrightarrow> \<not> expiresAt s < now \<longrightarrow>
            apiVerifySignature now \<lparr>reqSessionId = Some sid, reqSignature = Some sg\<rparr> sessions =
              (LookupOk \<lparr>valid = (sessSignature s = sg), lookupReason = None,
                         lookupRecordId = (if sessSignature s = sg then sessRecordId s else None),
                         lookupTimestamp =
                           (if sessSignature s = sg then Some (sessTimestamp s) else None)\<rparr>,
               sessions)) \<and>
         (\<forall>rt secretKey tSign tStore tSweep points recordId passed before a sessions'.
            issueSession rt secretKey tSign tStore tSweep points recordId passed before
              = (a, sid, sessions') \<longrightarrow>
            signature a = sg \<longrightarrow> tSweep \<le> tStore + 3600000 \<longrightarrow> now \<le> tStore + 3600000 \<longrightarrow>
            apiVerifySignature now \<lparr>reqSessionId = Some sid, reqSignature = Some sg\<rparr> sessions' =
              (LookupOk \<lparr>valid = True, lookupReason = None, lookupRecordId = recordId,
                         lookupTimestamp = Some tSign\<rparr>, sessions')) \<and>
         (\<forall>rt secretKey tSign tStore tSweep req before body sessions'.
            apiVerify rt secretKey tSign tStore tSweep req before = (VerifiedOk body, sessions') \<longrightarrow>
            vSessionId body = sid \<longrightarrow> vSignature body = sg \<longrightarrow>
            tSweep \<le> tStore + 3600000 \<longrightarrow> now \<le> tStore + 3600000 \<longrightarrow>
            apiVerifySignature now \<lparr>reqSessionId = Some sid, reqSignature = Some sg\<rparr> sessions' =
              (LookupOk \<lparr>valid = True, lookupReason = None, lookupRecordId = reqRecordId req,
                         lookupTimestamp = Some tSign\<rparr>, sessions'))"
proof (intro conjI allI impI)
  show "apiVerifySignature now \<lparr>reqSessionId = Some sid, reqSignature = Some sg\<rparr> sessions =
          (LookupOk \<lparr>valid = False, lookupReason = Some ''session_not_found'',
                     lookupRecordId = None, lookupTimestamp = None\<rparr>, sessions)"
    if "sessions sid = None"
    using assms that by (rule lookup_not_found)
next
  fix s
  assume "sessions sid = Some s" and "expiresAt s < now"
  with assms show
    "apiVerifySignature now \<lparr>reqSessionId = Some sid, reqSignature = Some sg\<rparr> sessions =
       (LookupOk \<lparr>valid = False, lookupReason = Some ''session_expired'',
                  lookupRecordId = None, lookupTimestamp = None\<rparr>, sessions(sid := None))"
    by (rule lookup_expired)
next
  fix s
  assume "sessions sid = Some s" and "\<not> expiresAt s < now"
  with assms show
    "apiVerifySignature now \<lparr>reqSessionId = Some sid, reqSignature = Some sg\<rparr> sessions =
       (LookupOk \<lparr>valid = (sessSignature s = sg), lookupReason = None,
                  lookupRecordId = (if sessSignature s = sg then sessRecordId s else None),
                  lookupTimestamp =
                    (if sessSignature s = sg then Some (sessTimestamp s) else None)\<rparr>,
        sessions)"
    by (rule lookup_live)
next
  fix rt secretKey tSign tStore tSweep points recordId passed before a sessions'
  assume issue: "issueSession rt secretKey tSign tStore tSweep points recordId passed before
                   = (a, sid, sessions')"
    and sig: "signature a = sg"
    and sweep: "tSweep \<le> tStore + 3600000"
    and live: "now \<le> tStore + 3600000"
  from issueSession_stored [OF issue sweep]
  have stored: "sessions' sid =
                  Some \<lparr>sessSignature = signature a, sessTimestamp = tSign,
                        sessRecordId = recordId, expiresAt = tStore + 3600000\<rparr>"
    by blast
  show "apiVerifySignature now \<lparr>reqSessionId = Some sid, reqSignature = Some sg\<rparr> sessions' =
          (LookupOk \<lparr>valid = True, lookupReason = None, lookupRecordId = recordId,
                     lookupTimestamp = Some tSign\<rparr>, sessions')"
    using lookup_live [of sid sg sessions' _ now] assms stored live sig by simp
next
  fix rt secretKey tSign tStore tSweep req before body sessions'
  assume verify: "apiVerify rt secretKey tSign tStore tSweep req before
                    = (VerifiedOk body, sessions')"
    and sid: "vSessionId body = sid"
    and sig: "vSignature body = sg"
    and sweep: "tSweep \<le> tStore + 3600000"
    and live: "now \<le> tStore + 3600000"
  from apiVerify_issued [OF verify] sid sig obtain points passed a where
    issue: "issueSession rt secretKey tSign tStore tSweep points (reqRecordId req) passed before
              = (a, sid, sessions')"
    and a: "signature a = sg"
    by auto
  from issueSession_stored [OF issue sweep]
  have stored: "sessions' sid =
                  Some \<lparr>sessSignature = signature a, sessTimestamp = tSign,
                        sessRecordId = reqRecordId req, expiresAt = tStore + 3600000\<rparr>"
    by blast
  show "apiVerifySignature now \<lparr>reqSessionId = Some sid, reqSignature = Some sg\<rparr> sessions' =
          (LookupOk \<lparr>valid = True, lookupReason = None, lookupRecordId = reqRecordId req,
                     lookupTimestamp = Some tSign\<rparr>, sessions')"
    using lookup_live [of sid sg sessions' _ now] assms stored live a by simp
qed

theorem session_lookup_witness:
  "(let reg = [''0123456789abcdef'' \<mapsto>
                 \<lparr>sessSignature = ''0123456789abcdef0123'', sessTimestamp = 1000,
                  sessRecordId = Some ''rec-1'', expiresAt = 3601000\<rparr>];
        rt = \<lparr>hmacSha256Hex = (\<lambda>k d. ''0123456789abcdef0123''), sha256Hex = (\<lambda>d. d),
              stringifyPoints = (\<lambda>ps. ''[]''), stringifyPayload = (\<lambda>h r ts n. h @ r)\<rparr> in
     ''0123456789abcdef'' \<noteq> [] \<and> ''0123456789abcdef0123'' \<noteq> [] \<and>
     apiVerifySignature 2000
       \<lparr>reqSessionId = Some ''ffff'', reqSignature = Some ''0123456789abcdef0123''\<rparr> reg =
       (LookupOk \<lparr>valid = False, lookupReason = Some ''session_not_found'',
                  lookupRecordId = None, lookupTimestamp = None\<rparr>, reg) \<and>
     apiVerifySignature 3601001
       \<lparr>reqSessionId = Some ''0123456789abcdef'',
        reqSignature = Some ''0123456789abcdef0123''\<rparr> reg =
       (LookupOk \<lparr>valid = False, lookupReason = Some ''session_expired'',
                  lookupRecordId = None, lookupTimestamp = None\<rparr>,
        reg(''0123456789abcdef'' := None)) \<and>
     apiVerifySignature 2000
       \<lparr>reqSessionId = Some ''0123456789abcdef'',
        reqSignature = Some ''0123456789abcdef0123''\<rparr> reg =
       (LookupOk \<lparr>valid = True, lookupReason = None, lookupRecordId = Some ''rec-1'',
                  lookupTimestamp = Some 1000\<rparr>, reg) \<and>
     apiVerifySignature 2000
       \<lparr>reqSessionId = Some ''0123456789abcdef'', reqSignature = Some ''0000''\<rparr> reg =
       (LookupOk \<lparr>valid = False, lookupReason = None, lookupRecordId = None,
                  lookupTimestamp = None\<rparr>, reg) \<and>
     fst (apiVerifySignature 2000
            \<lparr>reqSessionId = Some ''0123456789abcdef'',
             reqSignature = Some ''0123456789abcdef0123''\<rparr>
            (snd (snd (issueSession rt ''k'' 1000 1000 1000 [] (Some ''rec-1'') 7 Map.empty)))) =
       LookupOk \<lparr>valid = True, lookupReason = None, lookupRecordId = Some ''rec-1'',
                 lookupTimestamp = Some 1000\<rparr> \<and>
     fst (apiVerify rt ''k'' 1000 1000 1000
            \<lparr>reqPoints = Some humanLikePath, reqTargetHits = Some (Fin 6),
             reqRecordId = Some ''rec-1''\<rparr> Map.empty) =
       VerifiedOk
         \<lparr>vSignature = ''0123456789abcdef0123'', vSessionId = ''0123456789abcdef'',
          vTimestamp = 1000,
          vChecks = \<lparr>speed = True, curves = True, jitter = True, timing = True,
                     continuous = True, notRobotic = True\<rparr>,
          vChecksPassed = 7, vMetrics = Some (metricsOf humanLikePath)\<rparr> \<and>
     fst (apiVerifySignature 2000
            \<lparr>reqSessionId = Some ''0123456789abcdef'',
             reqSignature = Some ''0123456789abcdef0123''\<rparr>
            (snd (apiVerify rt ''k'' 1000 1000 1000
                    \<lparr>reqPoints = Some humanLikePath, reqTargetHits = Some (Fin 6),
                     reqRecordId = Some ''rec-1''\<rparr> Map.empty))) =
       LookupOk \<lparr>valid = True, lookupReason = None, lookupRecordId = Some ''rec-1'',
                 lookupTimestamp = Some 1000\<rparr>)"
  using session_lookup
          [of "''0123456789abcdef''" "''0123456789abcdef0123''"
              "[''0123456789abcdef'' \<mapsto>
                 \<lparr>sessSignature = ''0123456789abcdef0123'', sessTimestamp = 1000,
                  sessRecordId = Some ''rec-1'', expiresAt = 3601000\<rparr>]" 2000]
  by (simp add: apiVerifySignature_def falsyString_def issueSession_def
        generateSignature_def sweep_def Let_def apiVerify_def human_analysis js_or_def)

end
